theory Spec2Isabelle
  imports Complex_Main
begin

section \<open>Binary-orbit evolution engine of COMPAS: a shallow embedding\<close>

text \<open>
  The development follows \<^verbatim>\<open>src/BaseBinaryStar.cpp\<close> and \<^verbatim>\<open>src/utils.cpp\<close>.

  Numbers. Every \<^verbatim>\<open>double\<close> of the source is a \<^typ>\<open>real\<close> here: the arithmetic
  is the exact arithmetic that the floating-point operations approximate. Rounding,
  overflow to infinity and NaN are outside the model (HOL's \<open>x / 0\<close> is \<open>0\<close>, and
  \<open>sqrt\<close>, \<open>ln\<close>, \<open>powr\<close> are total). The two members that the source sets to the
  NaN sentinel on purpose are options, with \<open>None\<close> for NaN.

  Missing declarations. The headers (\<^verbatim>\<open>constants.h\<close>, \<^verbatim>\<open>BaseBinaryStar.h\<close>,
  \<^verbatim>\<open>vector3d.h\<close>), the program options, the random-number service and the class
  \<^verbatim>\<open>BinaryConstituentStar\<close> are not part of the two source files. Their values and
  member functions are parameters of the model, collected in records that every
  function takes as arguments.
\<close>

subsection \<open>Constants and enumerations declared in the headers\<close>

datatype MT_ANGULAR_MOMENTUM_LOSS_PRESCRIPTION =
    JEANS | ISOTROPIC_RE_EMISSION | CIRCUMBINARY_RING | ARBITRARY
  | OTHER_PRESCRIPTION  \<comment> \<open>any value of the enumeration's integer type that is none of the four\<close>

datatype STELLAR_TYPE =
    MS_LTE_07 | MS_GT_07 | HERTZSPRUNG_GAP | FIRST_GIANT_BRANCH | CORE_HELIUM_BURNING
  | EARLY_ASYMPTOTIC_GIANT_BRANCH | THERMALLY_PULSING_ASYMPTOTIC_GIANT_BRANCH
  | NAKED_HELIUM_STAR_MS | NAKED_HELIUM_STAR_HERTZSPRUNG_GAP | NAKED_HELIUM_STAR_GIANT_BRANCH
  | HELIUM_WHITE_DWARF | CARBON_OXYGEN_WHITE_DWARF | OXYGEN_NEON_WHITE_DWARF
  | NEUTRON_STAR | BLACK_HOLE | MASSLESS_REMNANT | CHEMICALLY_HOMOGENEOUS
  | STAR | BINARY_STAR | NONE

datatype ERROR = NO_ERROR | RESOLVE_SUPERNOVA_IMPROPERLY_CALLED
  | UNKNOWN_MT_ANGULAR_MOMENTUM_LOSS_PRESCRIPTION

datatype MT_TRACKING = NO_MASS_TRANSFER | STABLE_FROM_1_TO_2 | STABLE_FROM_2_TO_1
  | CE_FROM_1_TO_2 | CE_FROM_2_TO_1 | CE_DOUBLE_CORE | CE_BOTH_MS | CE_MS_WITH_CO

datatype CHE_OPTION = CHE_NONE | CHE_OPTIMISTIC | CHE_PESSIMISTIC

text \<open>
  The values of \<^verbatim>\<open>constants.h\<close> that the modelled functions read. The macro
  \<^verbatim>\<open>COMPARE_WITH_TOLERANCE\<close> selects one of the two bodies of \<^verbatim>\<open>utils::Compare\<close>
  at compile time; it is a boolean here.
\<close>

record constants_h =
  COMPARE_WITH_TOLERANCE :: bool
  FLOAT_TOLERANCE_ABSOLUTE :: real
  FLOAT_TOLERANCE_RELATIVE :: real
  G :: real
  G1 :: real
  G_SN :: real
  C :: real
  AU :: real
  MSOL_TO_KG :: real
  SECONDS_IN_YEAR :: real
  YEAR_TO_MYR :: real
  HUBBLE_TIME :: real
  RSOL_TO_AU :: real
  AU_TO_RSOL :: real
  AU_TO_KM :: real
  KM_TO_AU :: real
  twoPI :: real  \<comment> \<open>\<^verbatim>\<open>_2_PI\<close>\<close>
  MAXIMUM_MASS_TRANSFER_FRACTION_PER_STEP :: real
  ALL_MAIN_SEQUENCE :: "STELLAR_TYPE list"
  ALL_HERTZSPRUNG_GAP :: "STELLAR_TYPE list"
  COMPACT_OBJECTS :: "STELLAR_TYPE list"

text \<open>The program options (\<^verbatim>\<open>OPTIONS->...()\<close>) that the modelled functions read.\<close>

record options =
  AllowRLOFAtBirth :: bool
  AllowTouchingAtBirth :: bool
  MinimumMassSecondary :: real
  AIS_RefinementPhase :: bool
  InitialMassFunctionMin :: real
  InitialMassFunctionMax :: real
  MassRatioDistributionMin :: real
  MassRatioDistributionMax :: real
  SemiMajorAxisDistributionMin :: real
  SemiMajorAxisDistributionMax :: real
  AllowMainSequenceStarToSurviveCommonEnvelope :: bool
  CHE_Option :: CHE_OPTION
  MassTransferAngularMomentumLossPrescription :: MT_ANGULAR_MOMENTUM_LOSS_PRESCRIPTION
  MassTransferJloss :: real

subsection \<open>\<^verbatim>\<open>utils.cpp\<close>\<close>

text \<open>\<^verbatim>\<open>utils::Compare\<close>: both bodies of the \<^verbatim>\<open>#ifdef\<close>.\<close>

definition Compare :: "constants_h \<Rightarrow> real \<Rightarrow> real \<Rightarrow> int" where
  "Compare K p_X p_Y =
     (if COMPARE_WITH_TOLERANCE K then
        (if \<bar>p_X - p_Y\<bar> \<le> max (FLOAT_TOLERANCE_ABSOLUTE K)
                               (FLOAT_TOLERANCE_RELATIVE K * max \<bar>p_X\<bar> \<bar>p_Y\<bar>)
         then 0 else (if p_X < p_Y then - 1 else 1))
      else
        (if p_X = p_Y then 0 else (if p_X < p_Y then - 1 else 1)))"

text \<open>\<^verbatim>\<open>utils::IsOneOf\<close>: the first match returns true.\<close>

fun IsOneOf :: "STELLAR_TYPE \<Rightarrow> STELLAR_TYPE list \<Rightarrow> bool" where
  "IsOneOf p_StellarType [] = False"
| "IsOneOf p_StellarType (elem # p_List) =
     (if p_StellarType = elem then True else IsOneOf p_StellarType p_List)"

text \<open>
  The C library's \<^verbatim>\<open>pow\<close> for a real exponent. It agrees with \<^verbatim>\<open>pow\<close> where the base is
  positive, and where the base is zero and the exponent positive.
\<close>

definition pow :: "real \<Rightarrow> real \<Rightarrow> real" where
  "pow x y = x powr y"

subsection \<open>Roche lobe radius\<close>

definition CalculateRocheLobeRadius_Static :: "real \<Rightarrow> real \<Rightarrow> real" where
  "CalculateRocheLobeRadius_Static p_MassPrimary p_MassSecondary =
     (let q = p_MassPrimary / p_MassSecondary;
          qCubeRoot = pow q (1 / 3)
      in 0.49 / (0.6 + ln (1 + qCubeRoot) / qCubeRoot / qCubeRoot))"

subsection \<open>Time to coalescence\<close>

text \<open>
  The quadrature loop of \<^verbatim>\<open>CalculateTimeToCoalescence\<close>:
  \<^verbatim>\<open>for (double e = 0.0; utils::Compare(e, p_Eccentricity) < 0; e += de)\<close>.
  Nothing in the loop itself bounds the number of rounds (a step \<open>de \<le> 0\<close> below the
  eccentricity never leaves it), so a run that does not return is \<open>None\<close>.
\<close>

partial_function (option) CalculateTimeToCoalescence_loop ::
  "constants_h \<Rightarrow> real \<Rightarrow> real \<Rightarrow> real \<Rightarrow> real \<Rightarrow> real option" where
  "CalculateTimeToCoalescence_loop K p_Eccentricity de e acc =
     (if Compare K e p_Eccentricity < 0 then
        (let one_e_2 = 1 - (e * e) in
         CalculateTimeToCoalescence_loop K p_Eccentricity de (e + de)
           (acc + de * pow e (29 / 19) * pow (1 + (121 / 304) * e * e) (1181 / 2299)
                    / (one_e_2 * sqrt one_e_2)))
      else Some acc)"

definition CalculateTimeToCoalescence ::
  "constants_h \<Rightarrow> real \<Rightarrow> real \<Rightarrow> real \<Rightarrow> real \<Rightarrow> real option" where
  "CalculateTimeToCoalescence K p_SemiMajorAxis p_Eccentricity p_Mass1 p_Mass2 =
     (let beta = (64 / 5) * G K * G K * G K * p_Mass1 * p_Mass2 * (p_Mass1 + p_Mass2)
                   / (C K * C K * C K * C K * C K);
          four_beta = 4 * beta;
          tC = p_SemiMajorAxis * p_SemiMajorAxis * p_SemiMajorAxis * p_SemiMajorAxis / four_beta
      in
      if Compare K p_Eccentricity 0 \<noteq> 0 then
        (let e0_2 = p_Eccentricity * p_Eccentricity;
             c0 = p_SemiMajorAxis * (1 - e0_2) * pow p_Eccentricity (- 12 / 19)
                    * pow (1 + (121 * e0_2 / 304)) (- 870 / 2299);
             four_c0 = c0 * c0 * c0 * c0
         in
         if Compare K p_Eccentricity 0.01 < 0 then
           Some (four_c0 * pow p_Eccentricity (48 / 19) / four_beta)
         else if Compare K p_Eccentricity 0.99 > 0 then
           (let one_e0_2 = 1 - e0_2 in
            Some (tC * ((768 / 425) * (one_e0_2 * one_e0_2 * one_e0_2 * sqrt one_e0_2))))
         else
           (case CalculateTimeToCoalescence_loop K p_Eccentricity (p_Eccentricity / 10000) 0 0 of
              None \<Rightarrow> None
            | Some acc \<Rightarrow> Some ((12 / 19) * (four_c0 / beta) * acc)))
      else Some tC)"

subsection \<open>Vectors\<close>

text \<open>
  \<^verbatim>\<open>Vector3d\<close> is declared in \<^verbatim>\<open>vector3d.h\<close>. Its products, magnitude and rotation are
  taken from their array counterparts in \<^verbatim>\<open>utils.cpp\<close> (\<^verbatim>\<open>DotProduct\<close>,
  \<^verbatim>\<open>CrossProduct\<close>, \<^verbatim>\<open>CalculateSpeedFromVelocity\<close>, \<^verbatim>\<open>RotateVector\<close>); the arithmetic
  operators act on the components.
\<close>

datatype Vector3d = Vector3d (xValue: real) (yValue: real) (zValue: real)

definition dot :: "Vector3d \<Rightarrow> Vector3d \<Rightarrow> real" where
  "dot a b = 0 + xValue a * xValue b + yValue a * yValue b + zValue a * zValue b"

definition cross :: "Vector3d \<Rightarrow> Vector3d \<Rightarrow> Vector3d" where
  "cross a b = Vector3d (yValue a * zValue b - zValue a * yValue b)
                        (zValue a * xValue b - xValue a * zValue b)
                        (xValue a * yValue b - yValue a * xValue b)"

definition Magnitude :: "Vector3d \<Rightarrow> real" where
  "Magnitude v = sqrt (xValue v * xValue v + yValue v * yValue v + zValue v * zValue v)"

definition RotateVector :: "Vector3d \<Rightarrow> real \<Rightarrow> real \<Rightarrow> real \<Rightarrow> Vector3d" where
  "RotateVector p_oldVector p_ThetaE p_PhiE p_PsiE =
     (let cTheta = cos p_ThetaE; cPhi = cos p_PhiE; cPsi = cos p_PsiE;
          sTheta = sin p_ThetaE; sPhi = sin p_PhiE; sPsi = sin p_PsiE;
          x = xValue p_oldVector; y = yValue p_oldVector; z = zValue p_oldVector
      in Vector3d
           (0 + (cPhi * cPsi - sPhi * cTheta * sPsi) * x
              + (- cPhi * sPsi - sPhi * cTheta * cPsi) * y + (sTheta * sPhi) * z)
           (0 + (sPhi * cPsi + cPhi * cTheta * sPsi) * x
              + (- sPhi * sPsi + cPhi * cTheta * cPsi) * y + (- sTheta * cPhi) * z)
           (0 + (sTheta * sPsi) * x + (sTheta * cPsi) * y + cTheta * z))"

definition vadd :: "Vector3d \<Rightarrow> Vector3d \<Rightarrow> Vector3d" where
  "vadd a b = Vector3d (xValue a + xValue b) (yValue a + yValue b) (zValue a + zValue b)"

definition vsub :: "Vector3d \<Rightarrow> Vector3d \<Rightarrow> Vector3d" where
  "vsub a b = Vector3d (xValue a - xValue b) (yValue a - yValue b) (zValue a - zValue b)"

definition smult :: "real \<Rightarrow> Vector3d \<Rightarrow> Vector3d" where
  "smult c a = Vector3d (c * xValue a) (c * yValue a) (c * zValue a)"

definition vdiv :: "Vector3d \<Rightarrow> real \<Rightarrow> Vector3d" where
  "vdiv a c = Vector3d (xValue a / c) (yValue a / c) (zValue a / c)"

subsection \<open>The constituent stars and the other collaborators\<close>

text \<open>
  The member functions of \<^verbatim>\<open>BinaryConstituentStar\<close> that the modelled functions call.
  The state of a star is any type \<open>'st\<close>; a member function that changes the star maps
  the old state to the new one.
\<close>

record 'st star_ops =
  BinaryConstituentStar_new :: "nat \<Rightarrow> real \<Rightarrow> real \<Rightarrow> real \<Rightarrow> real \<Rightarrow> 'st"
    \<comment> \<open>random seed, mass, metallicity, LBV factor, Wolf-Rayet factor (no kick parameters)\<close>
  Mass :: "'st \<Rightarrow> real"
  MassPrev :: "'st \<Rightarrow> real"
  CoreMass :: "'st \<Rightarrow> real"
  Radius :: "'st \<Rightarrow> real"
  RadiusPostCEE :: "'st \<Rightarrow> real"
  StellarType :: "'st \<Rightarrow> STELLAR_TYPE"
  IsRLOF :: "'st \<Rightarrow> bool"
  LambdaAtCEE :: "'st \<Rightarrow> real"
  IsSNevent :: "'st \<Rightarrow> bool"
  SN_Theta :: "'st \<Rightarrow> real"
  SN_Phi :: "'st \<Rightarrow> real"
  SN_KickMagnitude :: "'st \<Rightarrow> real"
  SN_EccentricAnomaly :: "'st \<Rightarrow> real"
  SN_TrueAnomaly :: "'st \<Rightarrow> real"
  CalculateLambdas :: "real \<Rightarrow> 'st \<Rightarrow> 'st"
  CalculateBindingEnergies :: "real \<Rightarrow> real \<Rightarrow> real \<Rightarrow> 'st \<Rightarrow> 'st"
  CalculateCommonEnvelopeValues :: "'st \<Rightarrow> 'st"
  Star_SetPreCEEValues :: "'st \<Rightarrow> 'st"
  Star_SetPostCEEValues :: "'st \<Rightarrow> 'st"
  ResolveCommonEnvelopeAccretion :: "real \<Rightarrow> 'st \<Rightarrow> 'st"
  ResolveEnvelopeLossAndSwitch :: "'st \<Rightarrow> 'st"
  UpdateAttributes :: "real \<Rightarrow> real \<Rightarrow> bool \<Rightarrow> 'st \<Rightarrow> 'st"
  SetOmega :: "real \<Rightarrow> 'st \<Rightarrow> 'st"
  SetOrbitalEnergyPreSN :: "real \<Rightarrow> 'st \<Rightarrow> 'st"
  SetOrbitalEnergyPostSN :: "real \<Rightarrow> 'st \<Rightarrow> 'st"
  UpdateComponentVelocity :: "Vector3d \<Rightarrow> 'st \<Rightarrow> 'st"
  CalculateSNAnomalies :: "real \<Rightarrow> 'st \<Rightarrow> 'st"
  CheckRunaway :: "bool \<Rightarrow> 'st \<Rightarrow> 'st"
  ClearCurrentSNEvent :: "'st \<Rightarrow> 'st"

text \<open>\<^verbatim>\<open>m_Supernova\<close>, \<^verbatim>\<open>m_Companion\<close> point to one of the two stars that the binary owns.\<close>

datatype star_ref = STAR1 | STAR2

text \<open>What the binary writes to the log: warnings and the records of the print functions.\<close>

datatype event = SHOW_WARN ERROR | PrintDoubleCompactObjects | PrintSupernovaDetails
  | PrintCommonEnvelope

record CEE_snapshot =
  cee_semiMajorAxis :: real
  cee_eccentricity :: real
  cee_rocheLobe1to2 :: real
  cee_rocheLobe2to1 :: real

record CEDetails =
  alpha :: real
  CEEcount :: nat
  doubleCoreCE :: bool
  optimisticCE :: bool
  preCEE :: CEE_snapshot
  postCEE :: CEE_snapshot

record RLOFDetails =
  immediateRLOFPostCEE :: bool
  simultaneousRLOF :: bool

text \<open>
  The members of \<^verbatim>\<open>BaseBinaryStar\<close> that the modelled functions read or write. The last
  two fields are the effects on the services outside the binary: the log, and the
  number of draws taken from the random-number generator so far.
\<close>

record 'st BaseBinaryStar =
  m_Star1 :: 'st
  m_Star2 :: 'st
  m_Supernova :: star_ref
  m_Companion :: star_ref
  m_SemiMajorAxis :: real
  m_Eccentricity :: real
  m_SemiMajorAxisPrev :: real
  m_EccentricityPrev :: real
  m_SemiMajorAxisPreSN :: real
  m_EccentricityPreSN :: real
  m_OrbitalVelocityPreSN :: "real option"
  m_uK :: "real option"
  m_SemiMajorAxisAtDCOFormation :: real
  m_EccentricityAtDCOFormation :: real
  m_TimeToCoalescence :: real
  m_Merged :: bool
  m_MergesInHubbleTime :: bool
  m_Unbound :: bool
  m_StellarMerger :: bool
  m_SystemicVelocity :: Vector3d
  m_SystemicSpeed :: real
  m_ThetaE :: real
  m_PhiE :: real
  m_PsiE :: real
  m_IPrime :: real
  m_CosIPrime :: real
  m_Mass1Final :: real
  m_Mass2Final :: real
  m_MassEnv1 :: real
  m_MassEnv2 :: real
  m_CEDetails :: CEDetails
  m_RLOFDetails :: RLOFDetails
  m_MassTransferTrackerHistory :: MT_TRACKING
  m_PrintExtraDetailedOutput :: bool
  m_Error :: ERROR
  m_RandomSeed :: nat
  m_LBVfactor :: real
  m_WolfRayetFactor :: real
  m_MassesEquilibrated :: bool
  m_MassesEquilibratedAtBirth :: bool
  trace :: "event list"
  rand_draws :: nat

text \<open>
  The inline member functions of \<^verbatim>\<open>BaseBinaryStar.h\<close>, \<^verbatim>\<open>linalg::angleBetween\<close> of
  \<^verbatim>\<open>vector3d.h\<close>, and the random-number generator: \<open>RAND_Random n\<close> is the value
  of the \<open>n\<close>-th call of \<^verbatim>\<open>RAND->Random()\<close>.
\<close>

record 'st externals =
  IsUnbound :: "'st BaseBinaryStar \<Rightarrow> bool"
  Eccentricity :: "'st BaseBinaryStar \<Rightarrow> real"
  SemiMajorAxisRsol :: "'st BaseBinaryStar \<Rightarrow> real"
  PeriastronRsol :: "'st BaseBinaryStar \<Rightarrow> real"
  OrbitalAngularVelocity :: "'st BaseBinaryStar \<Rightarrow> real"
  CalculateOrbitalEnergy :: "real \<Rightarrow> real \<Rightarrow> real \<Rightarrow> real"
  angleBetween :: "Vector3d \<Rightarrow> Vector3d \<Rightarrow> real"
  RAND_Random :: "nat \<Rightarrow> real"

definition star_of :: "'st BaseBinaryStar \<Rightarrow> star_ref \<Rightarrow> 'st" where
  "star_of b r = (case r of STAR1 \<Rightarrow> m_Star1 b | STAR2 \<Rightarrow> m_Star2 b)"

definition star_upd :: "star_ref \<Rightarrow> ('st \<Rightarrow> 'st) \<Rightarrow> 'st BaseBinaryStar \<Rightarrow> 'st BaseBinaryStar" where
  "star_upd r f b = (case r of STAR1 \<Rightarrow> b\<lparr>m_Star1 := f (m_Star1 b)\<rparr>
                             | STAR2 \<Rightarrow> b\<lparr>m_Star2 := f (m_Star2 b)\<rparr>)"

definition emit :: "event \<Rightarrow> 'st BaseBinaryStar \<Rightarrow> 'st BaseBinaryStar" where
  "emit ev b = b\<lparr>trace := trace b @ [ev]\<rparr>"

subsection \<open>Coalescence\<close>

definition ResolveCoalescence ::
  "constants_h \<Rightarrow> 'st star_ops \<Rightarrow> 'st BaseBinaryStar \<Rightarrow> 'st BaseBinaryStar option" where
  "ResolveCoalescence K S b =
     (let b1 = b\<lparr>m_SemiMajorAxisAtDCOFormation := m_SemiMajorAxis b,
                 m_EccentricityAtDCOFormation := m_Eccentricity b\<rparr>
      in case CalculateTimeToCoalescence K (m_SemiMajorAxis b1 * AU K) (m_Eccentricity b1)
                (Mass S (m_Star1 b1) * MSOL_TO_KG K) (Mass S (m_Star2 b1) * MSOL_TO_KG K) of
           None \<Rightarrow> None
         | Some tC \<Rightarrow>
             (let b2 = b1\<lparr>m_TimeToCoalescence := (tC / SECONDS_IN_YEAR K) * YEAR_TO_MYR K\<rparr>;
                  b3 = (if Compare K tC (HUBBLE_TIME K) < 0
                        then b2\<lparr>m_Merged := True, m_MergesInHubbleTime := True\<rparr>
                        else b2\<lparr>m_Merged := False, m_MergesInHubbleTime := False\<rparr>)
              in Some (emit PrintDoubleCompactObjects b3)))"

subsection \<open>Orbit after mass transfer\<close>

definition CalculateGammaAngularMomentumLoss ::
  "options \<Rightarrow> real \<Rightarrow> real \<Rightarrow> 'st BaseBinaryStar \<Rightarrow> real \<times> 'st BaseBinaryStar" where
  "CalculateGammaAngularMomentumLoss opts p_DonorMass p_AccretorMass b =
     (case MassTransferAngularMomentumLossPrescription opts of
        JEANS \<Rightarrow> (p_AccretorMass / p_DonorMass, b)
      | ISOTROPIC_RE_EMISSION \<Rightarrow> (p_DonorMass / p_AccretorMass, b)
      | CIRCUMBINARY_RING \<Rightarrow>
          ((sqrt 2 * (p_DonorMass + p_AccretorMass) * (p_DonorMass + p_AccretorMass))
             / (p_DonorMass * p_AccretorMass), b)
      | ARBITRARY \<Rightarrow> (MassTransferJloss opts, b)
      | OTHER_PRESCRIPTION \<Rightarrow>
          (1, emit (SHOW_WARN UNKNOWN_MT_ANGULAR_MOMENTUM_LOSS_PRESCRIPTION)
                (b\<lparr>m_Error := UNKNOWN_MT_ANGULAR_MOMENTUM_LOSS_PRESCRIPTION\<rparr>)))"

text \<open>
  The two locals of \<^verbatim>\<open>CalculateMassTransferOrbit\<close> that fix the substeps:
  \<^verbatim>\<open>int numberIterations = fmax(floor(fabs(p_DeltaMassDonor /
  (MAXIMUM_MASS_TRANSFER_FRACTION_PER_STEP * massD))), 1)\<close> and
  \<^verbatim>\<open>dM = p_DeltaMassDonor / numberIterations\<close>.
\<close>

definition numberIterations :: "constants_h \<Rightarrow> real \<Rightarrow> real \<Rightarrow> int" where
  "numberIterations K massD p_DeltaMassDonor =
     max \<lfloor>\<bar>p_DeltaMassDonor / (MAXIMUM_MASS_TRANSFER_FRACTION_PER_STEP K * massD)\<bar>\<rfloor> 1"

definition dM :: "constants_h \<Rightarrow> real \<Rightarrow> real \<Rightarrow> real" where
  "dM K massD p_DeltaMassDonor =
     p_DeltaMassDonor / of_int (numberIterations K massD p_DeltaMassDonor)"

text \<open>
  The body of the \<^verbatim>\<open>for\<close> loop, run \<open>n\<close> more times on
  \<open>(jOrb, semiMajorAxis, massD, massA, massAplusMassD)\<close> and the binary.
\<close>

fun CalculateMassTransferOrbit_loop ::
  "options \<Rightarrow> real \<Rightarrow> real \<Rightarrow> nat \<Rightarrow> real \<times> real \<times> real \<times> real \<times> real \<times> 'st BaseBinaryStar
     \<Rightarrow> real \<times> real \<times> real \<times> real \<times> real \<times> 'st BaseBinaryStar" where
  "CalculateMassTransferOrbit_loop opts p_FractionAccreted dm 0 st = st"
| "CalculateMassTransferOrbit_loop opts p_FractionAccreted dm (Suc n)
      (jOrb, semiMajorAxis, massD, massA, massAplusMassD, b) =
     (let (jLoss, b') = CalculateGammaAngularMomentumLoss opts massD massA b;
          jOrb' = jOrb + ((jLoss * jOrb * (1 - p_FractionAccreted) / massAplusMassD) * dm);
          semiMajorAxis' = semiMajorAxis
             + (((- 2 * dm / massD)
                  * (1 - (p_FractionAccreted * (massD / massA))
                       - ((1 - p_FractionAccreted) * (jLoss + 0.5) * (massD / massAplusMassD))))
                * semiMajorAxis);
          massD' = massD + dm;
          massA' = massA - (dm * p_FractionAccreted);
          massAplusMassD' = massA' + massD'
      in CalculateMassTransferOrbit_loop opts p_FractionAccreted dm n
           (jOrb', semiMajorAxis', massD', massA', massAplusMassD', b'))"

definition CalculateMassTransferOrbit ::
  "constants_h \<Rightarrow> options \<Rightarrow> 'st star_ops \<Rightarrow> real \<Rightarrow> real \<Rightarrow> real \<Rightarrow> 'st \<Rightarrow> real
     \<Rightarrow> 'st BaseBinaryStar \<Rightarrow> real \<times> 'st BaseBinaryStar" where
  "CalculateMassTransferOrbit K opts S p_DonorMass p_DeltaMassDonor p_ThermalRateDonor
       p_Accretor p_FractionAccreted b =
     (let semiMajorAxis = m_SemiMajorAxis b;
          massA = Mass S p_Accretor;
          massD = p_DonorMass;
          massAtimesMassD = massA * massD;
          massAplusMassD = massA + massD;
          jOrb = (massAtimesMassD / massAplusMassD) * sqrt (semiMajorAxis * G1 K * massAplusMassD);
          n = numberIterations K massD p_DeltaMassDonor;
          dm = dM K massD p_DeltaMassDonor;
          (jOrb', semiMajorAxis', massD', massA', massAplusMassD', b') =
             CalculateMassTransferOrbit_loop opts p_FractionAccreted dm (nat n)
               (jOrb, semiMajorAxis, massD, massA, massAplusMassD, b)
      in (semiMajorAxis', b'))"

subsection \<open>The constructor's sampling loop\<close>

text \<open>
  One pass of the \<^verbatim>\<open>do ... while\<close> loop of the sampling constructor draws the initial
  masses, metallicities and orbit. The draws of a pass are the values that the
  \<^verbatim>\<open>Sample...Distribution\<close> members return in that pass (\<open>d_semiMajorAxis\<close> is the
  value returned for the masses of that pass).
\<close>

record draw =
  d_mass1 :: real
  d_massRatio :: real
  d_metallicity1 :: real
  d_metallicity2 :: real
  d_semiMajorAxis :: real
  d_eccentricity :: real

text \<open>The local variables of the loop that are read after the pass.\<close>

record pass_locals =
  loc_mass1 :: real
  loc_mass2 :: real
  loc_massRatio :: real
  loc_metallicity1 :: real
  loc_metallicity2 :: real
  loc_rlof :: bool
  loc_merger :: bool
  loc_secondarySmallerThanMinimumMass :: bool
  loc_initialParametersOutsideParameterSpace :: bool

text \<open>
  ``Either star overflowing Roche Lobe?'': the two trackers of the stars just made and
  the test on them.
\<close>

definition overflowing ::
  "constants_h \<Rightarrow> 'st star_ops \<Rightarrow> real \<Rightarrow> real \<Rightarrow> 'st BaseBinaryStar \<Rightarrow> bool" where
  "overflowing K S mass1 mass2 b =
     (let rocheLobeTracker1 = (Radius S (m_Star1 b) * RSOL_TO_AU K)
             / (m_SemiMajorAxis b * (1 - m_Eccentricity b)
                 * CalculateRocheLobeRadius_Static mass1 mass2);
          rocheLobeTracker2 = (Radius S (m_Star2 b) * RSOL_TO_AU K)
             / (m_SemiMajorAxis b * (1 - m_Eccentricity b)
                 * CalculateRocheLobeRadius_Static mass2 mass1)
      in Compare K rocheLobeTracker1 1 > 0 \<or> Compare K rocheLobeTracker2 1 > 0)"

text \<open>
  The branch for a binary that overflows at birth when that is allowed: the masses are
  made equal, the orbit is made circular and the stars are made again. The result is
  the binary and the new values of \<^verbatim>\<open>mass1\<close> and \<^verbatim>\<open>mass2\<close>. (The branch also assigns the two
  trackers again, which nothing reads afterwards.)
\<close>

definition equilibrate ::
  "'st star_ops \<Rightarrow> real \<Rightarrow> real \<Rightarrow> real \<Rightarrow> real \<Rightarrow> 'st BaseBinaryStar
     \<Rightarrow> 'st BaseBinaryStar \<times> real \<times> real" where
  "equilibrate S metallicity1 metallicity2 mass1 mass2 b =
     (let c1 = b\<lparr>m_MassesEquilibratedAtBirth := True\<rparr>;
          mass1' = (mass1 + mass2) / 2;
          mass2' = mass1';
          M = mass1' + mass2';
          m1m2 = mass1' * mass2';
          c2 = c1\<lparr>m_SemiMajorAxis := m_SemiMajorAxis c1
                    * (16 * m1m2 * m1m2 / (M * M * M * M)
                        * (1 - (m_Eccentricity c1 * m_Eccentricity c1)))\<rparr>;
          c3 = c2\<lparr>m_Eccentricity := 0\<rparr>;
          c4 = c3\<lparr>m_Star1 := BinaryConstituentStar_new S (m_RandomSeed c3) mass1' metallicity1
                                 (m_LBVfactor c3) (m_WolfRayetFactor c3)\<rparr>;
          c5 = c4\<lparr>m_Star2 := BinaryConstituentStar_new S (m_RandomSeed c4) mass2' metallicity2
                                 (m_LBVfactor c4) (m_WolfRayetFactor c4)\<rparr>
      in (c5, mass1', mass2'))"

text \<open>
  The body of the loop. The calls of \<^verbatim>\<open>SetCompanion\<close> only store the address of the other
  star, which the record of the binary gives already; \<^verbatim>\<open>m_AIS.Initialise()\<close> acts on the
  sampler, whose results are the draws.
\<close>

definition sampling_pass ::
  "constants_h \<Rightarrow> options \<Rightarrow> 'st star_ops \<Rightarrow> draw \<Rightarrow> 'st BaseBinaryStar
     \<Rightarrow> 'st BaseBinaryStar \<times> pass_locals" where
  "sampling_pass K opts S d b =
     (let mass1 = d_mass1 d;
          massRatio = d_massRatio d;
          mass2 = massRatio * mass1;
          metallicity1 = min (max (d_metallicity1 d) 0) 1;
          metallicity2 = min (max (d_metallicity2 d) 0) 1;
          b1 = b\<lparr>m_SemiMajorAxis := d_semiMajorAxis d\<rparr>;
          b2 = b1\<lparr>m_Eccentricity := d_eccentricity d\<rparr>;
          b3 = b2\<lparr>m_Star1 := BinaryConstituentStar_new S (m_RandomSeed b2) mass1 metallicity1
                                 (m_LBVfactor b2) (m_WolfRayetFactor b2)\<rparr>;
          b4 = b3\<lparr>m_Star2 := BinaryConstituentStar_new S (m_RandomSeed b3) mass2 metallicity2
                                 (m_LBVfactor b3) (m_WolfRayetFactor b3)\<rparr>;
          b5 = b4\<lparr>m_MassesEquilibrated := False, m_MassesEquilibratedAtBirth := False\<rparr>;
          rlof = overflowing K S mass1 mass2 b4;
          (b6, mass1', mass2') =
            (if rlof \<and> AllowRLOFAtBirth opts
             then equilibrate S metallicity1 metallicity2 mass1 mass2 b5
             else (b5, mass1, mass2))
      in (b6,
          \<lparr>loc_mass1 = mass1', loc_mass2 = mass2', loc_massRatio = massRatio,
           loc_metallicity1 = metallicity1, loc_metallicity2 = metallicity2,
           loc_rlof = rlof,
           loc_merger = ((m_SemiMajorAxis b6 * AU_TO_RSOL K)
                           < (Radius S (m_Star1 b6) + Radius S (m_Star2 b6))),
           loc_secondarySmallerThanMinimumMass =
             (Compare K mass2' (MinimumMassSecondary opts) < 0),
           loc_initialParametersOutsideParameterSpace =
             (if AIS_RefinementPhase opts then
                (Compare K mass1' (InitialMassFunctionMin opts) < 0
                 \<or> Compare K mass1' (InitialMassFunctionMax opts) > 0
                 \<or> Compare K massRatio (MassRatioDistributionMin opts) < 0
                 \<or> Compare K massRatio (MassRatioDistributionMax opts) > 0
                 \<or> Compare K (m_SemiMajorAxis b6) (SemiMajorAxisDistributionMin opts) < 0
                 \<or> Compare K (m_SemiMajorAxis b6) (SemiMajorAxisDistributionMax opts) > 0)
              else False)\<rparr>))"

text \<open>The condition of the \<^verbatim>\<open>while\<close>: the pass is rejected and the loop draws again.\<close>

definition rejected :: "options \<Rightarrow> pass_locals \<Rightarrow> bool" where
  "rejected opts l \<longleftrightarrow>
     (\<not> AllowRLOFAtBirth opts \<and> loc_rlof l) \<or> (\<not> AllowTouchingAtBirth opts \<and> loc_merger l)
     \<or> loc_secondarySmallerThanMinimumMass l \<or> loc_initialParametersOutsideParameterSpace l"

text \<open>
  The loop from pass \<open>i\<close> on, over the draws of all passes. Every pass starts from the
  members left by the one before. The loop has no bound in the source: if every
  pass is rejected it does not return, which is \<open>None\<close>. The result is the number of
  the accepted pass, the binary and the locals at the end of that pass.
\<close>

partial_function (option) sampling_loop ::
  "constants_h \<Rightarrow> options \<Rightarrow> 'st star_ops \<Rightarrow> (nat \<Rightarrow> draw) \<Rightarrow> nat \<Rightarrow> 'st BaseBinaryStar
     \<Rightarrow> (nat \<times> 'st BaseBinaryStar \<times> pass_locals) option" where
  "sampling_loop K opts S draws i b =
     (case sampling_pass K opts S (draws i) b of
        (b', l) \<Rightarrow> if rejected opts l then sampling_loop K opts S draws (Suc i) b'
                   else Some (i, b', l))"

subsection \<open>Common envelope\<close>

fun HasOneOf_loop :: "STELLAR_TYPE \<Rightarrow> STELLAR_TYPE \<Rightarrow> STELLAR_TYPE list \<Rightarrow> bool" where
  "HasOneOf_loop t1 t2 [] = False"
| "HasOneOf_loop t1 t2 (elem # p_List) =
     (if t1 = elem \<or> t2 = elem then True else HasOneOf_loop t1 t2 p_List)"

definition HasOneOf :: "'st star_ops \<Rightarrow> STELLAR_TYPE list \<Rightarrow> 'st BaseBinaryStar \<Rightarrow> bool" where
  "HasOneOf S p_List b =
     HasOneOf_loop (StellarType S (m_Star1 b)) (StellarType S (m_Star2 b)) p_List"

fun HasTwoOf_loop :: "STELLAR_TYPE \<Rightarrow> STELLAR_TYPE \<Rightarrow> nat \<Rightarrow> STELLAR_TYPE list \<Rightarrow> bool" where
  "HasTwoOf_loop t1 t2 matchCount [] = False"
| "HasTwoOf_loop t1 t2 matchCount (elem # p_List) =
     (let c1 = (if t1 = elem then matchCount + 1 else matchCount);
          c2 = (if t2 = elem then c1 + 1 else c1)
      in if c2 > 1 then True else HasTwoOf_loop t1 t2 c2 p_List)"

definition HasTwoOf :: "'st star_ops \<Rightarrow> STELLAR_TYPE list \<Rightarrow> 'st BaseBinaryStar \<Rightarrow> bool" where
  "HasTwoOf S p_List b =
     HasTwoOf_loop (StellarType S (m_Star1 b)) (StellarType S (m_Star2 b)) 0 p_List"

definition SetPreCEEValues ::
  "real \<Rightarrow> real \<Rightarrow> real \<Rightarrow> real \<Rightarrow> 'st BaseBinaryStar \<Rightarrow> 'st BaseBinaryStar" where
  "SetPreCEEValues p_SemiMajorAxis p_Eccentricity p_RocheLobe1to2 p_RocheLobe2to1 b =
     b\<lparr>m_CEDetails := (m_CEDetails b)\<lparr>preCEE :=
          \<lparr>cee_semiMajorAxis = p_SemiMajorAxis, cee_eccentricity = p_Eccentricity,
           cee_rocheLobe1to2 = p_RocheLobe1to2, cee_rocheLobe2to1 = p_RocheLobe2to1\<rparr>\<rparr>\<rparr>"

definition SetPostCEEValues ::
  "constants_h \<Rightarrow> 'st star_ops \<Rightarrow> real \<Rightarrow> real \<Rightarrow> real \<Rightarrow> real \<Rightarrow> 'st BaseBinaryStar
     \<Rightarrow> 'st BaseBinaryStar" where
  "SetPostCEEValues K S p_SemiMajorAxis p_Eccentricity p_RocheLobe1to2 p_RocheLobe2to1 b =
     (let b1 = b\<lparr>m_CEDetails := (m_CEDetails b)\<lparr>postCEE :=
                 \<lparr>cee_semiMajorAxis = p_SemiMajorAxis, cee_eccentricity = p_Eccentricity,
                  cee_rocheLobe1to2 = p_RocheLobe1to2, cee_rocheLobe2to1 = p_RocheLobe2to1\<rparr>\<rparr>\<rparr>
      in if Compare K (RadiusPostCEE S (m_Star1 b1)) (cee_rocheLobe1to2 (postCEE (m_CEDetails b1))) \<ge> 0
            \<or> Compare K (RadiusPostCEE S (m_Star2 b1)) (cee_rocheLobe2to1 (postCEE (m_CEDetails b1))) \<ge> 0
         then b1\<lparr>m_RLOFDetails := (m_RLOFDetails b1)\<lparr>immediateRLOFPostCEE := True\<rparr>\<rparr>
         else b1)"

text \<open>The local variables of \<^verbatim>\<open>ResolveCommonEnvelopeEvent\<close> that outlive its first part.\<close>

record CE_locals =
  alphaCE :: real
  loc_eccentricity :: real
  semiMajorAxisRsol :: real
  periastronRsol :: real
  rRLd1Rsol :: real
  rRLd2Rsol :: real
  donorMS :: bool
  envelopeFlag1 :: bool
  envelopeFlag2 :: bool
  lambda1 :: real
  lambda2 :: real

text \<open>
  \<^verbatim>\<open>ResolveCommonEnvelopeEvent\<close>: the final masses and the envelopes of the two stars, and
  the local \<^verbatim>\<open>donorMS\<close> (the branches on
  \<^verbatim>\<open>AllowMainSequenceStarToSurviveCommonEnvelope\<close>).
\<close>

definition ResolveCommonEnvelopeEvent_masses ::
  "constants_h \<Rightarrow> options \<Rightarrow> 'st star_ops \<Rightarrow> 'st BaseBinaryStar \<Rightarrow> bool \<times> 'st BaseBinaryStar" where
  "ResolveCommonEnvelopeEvent_masses K opts S b =
     (if AllowMainSequenceStarToSurviveCommonEnvelope opts then
        (let (d1, c1) =
               (if IsOneOf (StellarType S (m_Star1 b)) (ALL_MAIN_SEQUENCE K)
                then (False \<or> IsRLOF S (m_Star1 b),
                      b\<lparr>m_Mass1Final := Mass S (m_Star1 b), m_MassEnv1 := 0\<rparr>)
                else (False,
                      b\<lparr>m_Mass1Final := CoreMass S (m_Star1 b),
                        m_MassEnv1 := Mass S (m_Star1 b) - CoreMass S (m_Star1 b)\<rparr>))
         in (if IsOneOf (StellarType S (m_Star2 c1)) (ALL_MAIN_SEQUENCE K)
             then (d1 \<or> IsRLOF S (m_Star2 c1),
                   c1\<lparr>m_Mass2Final := Mass S (m_Star2 c1), m_MassEnv2 := 0\<rparr>)
             else (d1,
                   c1\<lparr>m_Mass2Final := CoreMass S (m_Star2 c1),
                      m_MassEnv2 := Mass S (m_Star2 c1) - CoreMass S (m_Star2 c1)\<rparr>)))
      else
        (False,
         b\<lparr>m_Mass1Final := CoreMass S (m_Star1 b),
           m_MassEnv1 := Mass S (m_Star1 b) - CoreMass S (m_Star1 b),
           m_Mass2Final := CoreMass S (m_Star2 b),
           m_MassEnv2 := Mass S (m_Star2 b) - CoreMass S (m_Star2 b)\<rparr>))"

text \<open>
  The flag of a double-core event, the count of the events and the flag of simultaneous
  overflow; \<open>ef1\<close> and \<open>ef2\<close> are the locals \<^verbatim>\<open>envelopeFlag1\<close> and \<^verbatim>\<open>envelopeFlag2\<close>.
\<close>

definition ResolveCommonEnvelopeEvent_counts ::
  "'st star_ops \<Rightarrow> bool \<Rightarrow> bool \<Rightarrow> 'st BaseBinaryStar \<Rightarrow> 'st BaseBinaryStar" where
  "ResolveCommonEnvelopeEvent_counts S ef1 ef2 b =
     (let b2 = b\<lparr>m_CEDetails := (m_CEDetails b)\<lparr>doubleCoreCE := ef1 \<and> ef2\<rparr>\<rparr>;
          b3 = b2\<lparr>m_CEDetails := (m_CEDetails b2)\<lparr>CEEcount := CEEcount (m_CEDetails b2) + 1\<rparr>\<rparr>
      in b3\<lparr>m_RLOFDetails := (m_RLOFDetails b3)
               \<lparr>simultaneousRLOF := IsRLOF S (m_Star1 b3) \<and> IsRLOF S (m_Star2 b3)\<rparr>\<rparr>)"

text \<open>The lambdas, the binding energies and the common-envelope values of the two stars.\<close>

definition ResolveCommonEnvelopeEvent_energies ::
  "'st star_ops \<Rightarrow> 'st BaseBinaryStar \<Rightarrow> 'st BaseBinaryStar" where
  "ResolveCommonEnvelopeEvent_energies S b =
     (let b5 = b\<lparr>m_Star1 := CalculateLambdas S (m_MassEnv1 b) (m_Star1 b)\<rparr>;
          b6 = b5\<lparr>m_Star2 := CalculateLambdas S (m_MassEnv2 b5) (m_Star2 b5)\<rparr>;
          b7 = b6\<lparr>m_Star1 := CalculateBindingEnergies S (m_Mass1Final b6) (m_MassEnv1 b6)
                                (Radius S (m_Star1 b6)) (m_Star1 b6)\<rparr>;
          b8 = b7\<lparr>m_Star2 := CalculateBindingEnergies S (m_Mass2Final b7) (m_MassEnv2 b7)
                                (Radius S (m_Star2 b7)) (m_Star2 b7)\<rparr>;
          b9 = b8\<lparr>m_Star1 := CalculateCommonEnvelopeValues S (m_Star1 b8)\<rparr>
      in b9\<lparr>m_Star2 := CalculateCommonEnvelopeValues S (m_Star2 b9)\<rparr>)"

text \<open>
  \<^verbatim>\<open>ResolveCommonEnvelopeEvent\<close>, first part: from the entry to the call of
  \<^verbatim>\<open>SetPreCEEValues\<close>, with the three groups of statements above in their places.
\<close>

definition ResolveCommonEnvelopeEvent_setup ::
  "constants_h \<Rightarrow> options \<Rightarrow> 'st star_ops \<Rightarrow> 'st externals \<Rightarrow> 'st BaseBinaryStar
     \<Rightarrow> CE_locals \<times> 'st BaseBinaryStar" where
  "ResolveCommonEnvelopeEvent_setup K opts S X b =
     (let alphaCE0 = alpha (m_CEDetails b);
          ecc = Eccentricity X b;
          smaRsol = SemiMajorAxisRsol X b;
          periRsol = PeriastronRsol X b;
          rl1 = periRsol * CalculateRocheLobeRadius_Static (Mass S (m_Star1 b)) (Mass S (m_Star2 b));
          rl2 = periRsol * CalculateRocheLobeRadius_Static (Mass S (m_Star2 b)) (Mass S (m_Star1 b));
          (dMS, b1) = ResolveCommonEnvelopeEvent_masses K opts S b;
          ef1 = (Compare K (m_MassEnv1 b1) 0 > 0 \<and> Compare K (m_Mass1Final b1) 0 > 0);
          ef2 = (Compare K (m_MassEnv2 b1) 0 > 0 \<and> Compare K (m_Mass2Final b1) 0 > 0);
          b4 = ResolveCommonEnvelopeEvent_counts S ef1 ef2 b1;
          b10 = ResolveCommonEnvelopeEvent_energies S b4;
          l1 = LambdaAtCEE S (m_Star1 b10);
          l2 = LambdaAtCEE S (m_Star2 b10);
          b11 = (if HasOneOf S (ALL_HERTZSPRUNG_GAP K) b10
                 then b10\<lparr>m_CEDetails := (m_CEDetails b10)\<lparr>optimisticCE := True\<rparr>\<rparr>
                 else b10);
          b12 = b11\<lparr>m_Star1 := Star_SetPreCEEValues S (m_Star1 b11)\<rparr>;
          b13 = b12\<lparr>m_Star2 := Star_SetPreCEEValues S (m_Star2 b12)\<rparr>;
          b14 = SetPreCEEValues smaRsol ecc rl1 rl2 b13
      in (\<lparr>alphaCE = alphaCE0, loc_eccentricity = ecc, semiMajorAxisRsol = smaRsol,
           periastronRsol = periRsol, rRLd1Rsol = rl1, rRLd2Rsol = rl2, donorMS = dMS,
           envelopeFlag1 = ef1, envelopeFlag2 = ef2, lambda1 = l1, lambda2 = l2\<rparr>,
          b14))"

text \<open>The terms \<^verbatim>\<open>k1\<close>, \<^verbatim>\<open>k2\<close>, \<^verbatim>\<open>k3\<close>, \<^verbatim>\<open>k4\<close> and the new separations.\<close>

definition k1 :: "constants_h \<Rightarrow> 'st star_ops \<Rightarrow> CE_locals \<Rightarrow> 'st BaseBinaryStar \<Rightarrow> real" where
  "k1 K S L b =
     (if IsOneOf (StellarType S (m_Star1 b)) (COMPACT_OBJECTS K) then 0
      else (2 / (lambda1 L * alphaCE L)) * Mass S (m_Star1 b) * m_MassEnv1 b / Radius S (m_Star1 b))"

definition k2 :: "constants_h \<Rightarrow> 'st star_ops \<Rightarrow> CE_locals \<Rightarrow> 'st BaseBinaryStar \<Rightarrow> real" where
  "k2 K S L b =
     (if IsOneOf (StellarType S (m_Star2 b)) (COMPACT_OBJECTS K) then 0
      else (2 / (lambda2 L * alphaCE L)) * Mass S (m_Star2 b) * m_MassEnv2 b / Radius S (m_Star2 b))"

definition k3 :: "'st star_ops \<Rightarrow> CE_locals \<Rightarrow> 'st BaseBinaryStar \<Rightarrow> real" where
  "k3 S L b = Mass S (m_Star1 b) * Mass S (m_Star2 b) / periastronRsol L"

definition k4 :: "'st BaseBinaryStar \<Rightarrow> real" where
  "k4 b = (m_Mass1Final b * m_Mass2Final b)"

definition aFinalRsol :: "constants_h \<Rightarrow> 'st star_ops \<Rightarrow> CE_locals \<Rightarrow> 'st BaseBinaryStar \<Rightarrow> real" where
  "aFinalRsol K S L b = k4 b / (k1 K S L b + k2 K S L b + k3 S L b)"

definition aFinal :: "constants_h \<Rightarrow> 'st star_ops \<Rightarrow> CE_locals \<Rightarrow> 'st BaseBinaryStar \<Rightarrow> real" where
  "aFinal K S L b = aFinalRsol K S L b * RSOL_TO_AU K"

text \<open>
  The \<^verbatim>\<open>else\<close> branch of ``stellar merger'': the stars that have an envelope lose it and
  switch their type, and the attributes of both are updated.
\<close>

definition ResolveCommonEnvelopeEvent_strip ::
  "'st star_ops \<Rightarrow> CE_locals \<Rightarrow> 'st BaseBinaryStar \<Rightarrow> 'st BaseBinaryStar" where
  "ResolveCommonEnvelopeEvent_strip S L b =
     (let stellarType1 = StellarType S (m_Star1 b);
          stellarType2 = StellarType S (m_Star2 b);
          c1 = (if envelopeFlag1 L
                then (b\<lparr>m_Star1 := ResolveEnvelopeLossAndSwitch S (m_Star1 b)\<rparr>)
                       \<lparr>m_MassTransferTrackerHistory := CE_FROM_1_TO_2\<rparr>
                else b);
          c2 = (if envelopeFlag2 L
                then (c1\<lparr>m_Star2 := ResolveEnvelopeLossAndSwitch S (m_Star2 c1)\<rparr>)
                       \<lparr>m_MassTransferTrackerHistory := CE_FROM_2_TO_1\<rparr>
                else c1);
          c3 = (if doubleCoreCE (m_CEDetails c2)
                then c2\<lparr>m_MassTransferTrackerHistory := CE_DOUBLE_CORE\<rparr> else c2);
          c4 = c3\<lparr>m_Star1 := UpdateAttributes S 0 0 True (m_Star1 c3)\<rparr>;
          c5 = c4\<lparr>m_Star2 := UpdateAttributes S 0 0 True (m_Star2 c4)\<rparr>
      in if StellarType S (m_Star1 c5) \<noteq> stellarType1 \<or> StellarType S (m_Star2 c5) \<noteq> stellarType2
         then c5\<lparr>m_PrintExtraDetailedOutput := True\<rparr> else c5)"

text \<open>
  Second part: the new orbit, the accretion and the loss of the envelopes, up to (and not
  including) the test of the radii against the new separation. \<open>L\<close> and \<open>b\<close> are the
  result of the first part.
\<close>

definition ResolveCommonEnvelopeEvent_envelopes ::
  "constants_h \<Rightarrow> 'st star_ops \<Rightarrow> CE_locals \<Rightarrow> 'st BaseBinaryStar \<Rightarrow> 'st BaseBinaryStar" where
  "ResolveCommonEnvelopeEvent_envelopes K S L b =
     (let b1 = b\<lparr>m_SemiMajorAxis := aFinal K S L b\<rparr>;
          b2 = b1\<lparr>m_Eccentricity := 0\<rparr>;
          b3 = b2\<lparr>m_Star1 := ResolveCommonEnvelopeAccretion S (m_Mass1Final b2) (m_Star1 b2)\<rparr>;
          b4 = b3\<lparr>m_Star2 := ResolveCommonEnvelopeAccretion S (m_Mass2Final b3) (m_Star2 b3)\<rparr>
      in if donorMS L \<or> (\<not> envelopeFlag1 L \<and> \<not> envelopeFlag2 L) then
           (let c1 = b4\<lparr>m_MassTransferTrackerHistory :=
                         (if HasTwoOf S [NAKED_HELIUM_STAR_MS] b4 then CE_BOTH_MS else CE_MS_WITH_CO)\<rparr>
            in c1\<lparr>m_StellarMerger := True\<rparr>)
         else ResolveCommonEnvelopeEvent_strip S L b4)"

text \<open>The whole of \<^verbatim>\<open>ResolveCommonEnvelopeEvent\<close>.\<close>

definition ResolveCommonEnvelopeEvent ::
  "constants_h \<Rightarrow> options \<Rightarrow> 'st star_ops \<Rightarrow> 'st externals \<Rightarrow> 'st BaseBinaryStar
     \<Rightarrow> 'st BaseBinaryStar" where
  "ResolveCommonEnvelopeEvent K opts S X b =
     (let (L, b0) = ResolveCommonEnvelopeEvent_setup K opts S X b;
          a = aFinal K S L b0;
          rRLdfin1 = a * CalculateRocheLobeRadius_Static (m_Mass1Final b0) (m_Mass2Final b0);
          rRLdfin2 = a * CalculateRocheLobeRadius_Static (m_Mass2Final b0) (m_Mass1Final b0);
          rRLdfin1Rsol = rRLdfin1 * AU_TO_RSOL K;
          rRLdfin2Rsol = rRLdfin2 * AU_TO_RSOL K;
          b5 = ResolveCommonEnvelopeEvent_envelopes K S L b0;
          b6 = (if Compare K a 0 \<le> 0
                   \<or> Compare K (Radius S (m_Star1 b5) + Radius S (m_Star2 b5)) (a * AU_TO_RSOL K) > 0
                then b5\<lparr>m_StellarMerger := True\<rparr> else b5);
          b7 = (if CHE_Option opts \<noteq> CHE_NONE
                then b6\<lparr>m_Star1 := SetOmega S (OrbitalAngularVelocity X b6) (m_Star1 b6)\<rparr> else b6);
          b8 = (if CHE_Option opts \<noteq> CHE_NONE
                then b7\<lparr>m_Star2 := SetOmega S (OrbitalAngularVelocity X b7) (m_Star2 b7)\<rparr> else b7);
          b9 = b8\<lparr>m_Star1 := Star_SetPostCEEValues S (m_Star1 b8)\<rparr>;
          b10 = b9\<lparr>m_Star2 := Star_SetPostCEEValues S (m_Star2 b9)\<rparr>;
          b11 = SetPostCEEValues K S (aFinalRsol K S L b0) (m_Eccentricity b10)
                  rRLdfin1Rsol rRLdfin2Rsol b10
      in emit PrintCommonEnvelope b11)"

subsection \<open>Supernova\<close>

text \<open>\<^verbatim>\<open>RAND->Random()\<close>: the next draw, and the binary with the draw counted.\<close>

definition Random :: "'st externals \<Rightarrow> 'st BaseBinaryStar \<Rightarrow> real \<times> 'st BaseBinaryStar" where
  "Random X b = (RAND_Random X (rand_draws b), b\<lparr>rand_draws := Suc (rand_draws b)\<rparr>)"

definition UpdateSystemicVelocity :: "Vector3d \<Rightarrow> 'st BaseBinaryStar \<Rightarrow> 'st BaseBinaryStar" where
  "UpdateSystemicVelocity p_newVelocity b =
     (let b1 = b\<lparr>m_SystemicVelocity := vadd (m_SystemicVelocity b) p_newVelocity\<rparr>
      in b1\<lparr>m_SystemicSpeed := Magnitude (m_SystemicVelocity b1)\<rparr>)"

text \<open>
  The local variables of the branch of \<^verbatim>\<open>ResolveSupernova\<close> for a binary that is intact
  before the supernova; the names that end in \<^verbatim>\<open>_\<close> in the source end in \<open>_post\<close>.
\<close>

record SN_locals =
  sn_a :: real
  sn_e :: real
  sn_m1 :: real
  sn_m2 :: real
  sn_mb :: real
  sn_cosEA :: real
  sn_sinEA :: real
  sn_omega :: real
  sn_R :: Vector3d
  sn_r :: real
  sn_V :: Vector3d
  sn_v :: real
  sn_H :: Vector3d
  sn_h :: real
  sn_E :: Vector3d
  sn_psi :: real
  sn_beta :: real
  sn_newPhi :: real
  sn_natalKickVector :: Vector3d
  sn_dV1 :: Vector3d
  sn_dV2 :: Vector3d
  sn_m1_post :: real
  sn_m2_post :: real
  sn_mb_post :: real
  sn_dm1 :: real
  sn_dm2 :: real
  sn_Vcm_post :: Vector3d
  sn_V_post :: Vector3d
  sn_H_post :: Vector3d
  sn_h_post :: real
  sn_E_post :: Vector3d
  sn_e_post :: real
  sn_a_post :: real

text \<open>
  The orbit before and after the kick: the vector algebra of \<^verbatim>\<open>ResolveSupernova\<close> from
  \<^verbatim>\<open>double a = m_SemiMajorAxisPrev*AU_TO_KM\<close> to \<^verbatim>\<open>double a_ = ...\<close>, evaluated on the
  binary after the call of \<^verbatim>\<open>CalculateSNAnomalies\<close>. \<open>theta\<close> is the local set before the
  branch, \<open>m1\<close> and \<open>m2\<close> are the locals read before that call. The test
  \<^verbatim>\<open>if (applyPhiSwitch)\<close> is on a local that is always true.
\<close>

definition SN_orbit ::
  "constants_h \<Rightarrow> 'st star_ops \<Rightarrow> 'st externals \<Rightarrow> real \<Rightarrow> real \<Rightarrow> real
     \<Rightarrow> 'st BaseBinaryStar \<Rightarrow> SN_locals" where
  "SN_orbit K S X theta m1 m2 b =
     (let sn = star_of b (m_Supernova b);
          cp = star_of b (m_Companion b);
          a = m_SemiMajorAxisPrev b * AU_TO_KM K;
          e = m_EccentricityPrev b;
          mb = m1 + m2;
          cosEA = cos (SN_EccentricAnomaly S sn);
          sinEA = sin (SN_EccentricAnomaly S sn);
          omega = sqrt (G_SN K * mb / (a * a * a));
          R = Vector3d (a * (cosEA - e)) (a * sqrt (1 - e * e) * sinEA) 0;
          r = Magnitude R;
          V = Vector3d ((- omega * a * a / r) * sinEA) ((omega * a * a / r) * sqrt (1 - e * e) * cosEA) 0;
          v = Magnitude V;
          H = cross R V;
          h = Magnitude H;
          E = vsub (vdiv (cross V H) (G_SN K * mb)) (vdiv R r);
          psi = SN_TrueAnomaly S sn;
          beta = pi - angleBetween X R V;
          newPhi = SN_Phi S sn + psi + pi - beta;
          natalKickVector = smult (SN_KickMagnitude S sn)
             (Vector3d (cos theta * cos newPhi) (cos theta * sin newPhi) (sin theta));
          dV1 = natalKickVector;
          dV2 = Vector3d 0 0 0;
          m1' = Mass S sn;
          m2' = Mass S cp;
          mb' = m1' + m2';
          dm1 = (m1 - m1');
          dm2 = (m2 - m2');
          Vcm' = vadd (vadd (smult (- m2 * dm1 / (mb * mb') + m1 * dm2 / (mb * mb')) V)
                            (smult (m1' / mb') dV1))
                      (smult (m2' / mb') dV2);
          V' = vadd V (vsub dV1 dV2);
          H' = cross R V';
          h' = Magnitude H';
          E' = vsub (vdiv (cross V' H') (G_SN K * mb')) (vdiv R r);
          e' = Magnitude E';
          a' = (h' * h') / (G_SN K * mb' * (1 - (e' * e')))
      in \<lparr>sn_a = a, sn_e = e, sn_m1 = m1, sn_m2 = m2, sn_mb = mb, sn_cosEA = cosEA,
          sn_sinEA = sinEA, sn_omega = omega, sn_R = R, sn_r = r, sn_V = V, sn_v = v,
          sn_H = H, sn_h = h, sn_E = E, sn_psi = psi, sn_beta = beta, sn_newPhi = newPhi,
          sn_natalKickVector = natalKickVector, sn_dV1 = dV1, sn_dV2 = dV2,
          sn_m1_post = m1', sn_m2_post = m2', sn_mb_post = mb', sn_dm1 = dm1, sn_dm2 = dm2,
          sn_Vcm_post = Vcm', sn_V_post = V', sn_H_post = H', sn_h_post = h',
          sn_E_post = E', sn_e_post = e', sn_a_post = a'\<rparr>)"

text \<open>The branch \<^verbatim>\<open>if (utils::Compare(e_, 1.0) >= 0)\<close>: the binary has become unbound.\<close>

definition ResolveSupernova_now_unbound ::
  "constants_h \<Rightarrow> 'st star_ops \<Rightarrow> 'st externals \<Rightarrow> SN_locals \<Rightarrow> 'st BaseBinaryStar
     \<Rightarrow> 'st BaseBinaryStar" where
  "ResolveSupernova_now_unbound K S X L b =
     (let b1 = b\<lparr>m_Unbound := True\<rparr>;
          vinf = (G_SN K * sn_mb_post L / sn_h_post L) * sqrt (sn_e_post L * sn_e_post L - 1);
          Vinf = smult vinf
             (vadd (smult (- 1 / sn_e_post L) (vdiv (sn_E_post L) (Magnitude (sn_E_post L))))
                   (smult (sqrt (1 - 1 / (sn_e_post L * sn_e_post L)))
                      (cross (vdiv (sn_H_post L) (Magnitude (sn_H_post L)))
                             (vdiv (sn_E_post L) (Magnitude (sn_E_post L))))));
          V1inf = vadd (smult (sn_m2_post L / sn_mb_post L) Vinf) (sn_Vcm_post L);
          V2inf = vadd (smult (- (sn_m1_post L / sn_mb_post L)) Vinf) (sn_Vcm_post L);
          b2 = star_upd (m_Supernova b1) (UpdateComponentVelocity S
                 (RotateVector V1inf (m_ThetaE b1) (m_PhiE b1) (m_PsiE b1))) b1;
          b3 = star_upd (m_Companion b2) (UpdateComponentVelocity S
                 (RotateVector V2inf (m_ThetaE b2) (m_PhiE b2) (m_PsiE b2))) b2;
          b4 = b3\<lparr>m_ThetaE := angleBetween X (vdiv (sn_H L) (sn_h L))
                                             (vdiv (sn_H_post L) (sn_h_post L))\<rparr>;
          (x1, b5) = Random X b4;
          b6 = b5\<lparr>m_PhiE := twoPI K * x1\<rparr>;
          (x2, b7) = Random X b6
      in b7\<lparr>m_PsiE := twoPI K * x2\<rparr>)"

text \<open>
  The divisors of that branch, in \<^verbatim>\<open>vinf = (G*mb_/h_)*sqrt(e_*e_-1)\<close>, in
  \<^verbatim>\<open>Vinf = vinf * ((-1/e_)*(E_/E_.mag) + sqrt(1-1/(e_*e_))*cross((H_/H_.mag), (E_/E_.mag)))\<close>
  and in \<^verbatim>\<open>V1inf = (m2_/mb_)*Vinf + Vcm_\<close>, \<^verbatim>\<open>V2inf = -(m1_/mb_)*Vinf + Vcm_\<close>. A quotient of
  doubles by zero is infinite or NaN, where the quotient of the model is \<open>0\<close>: the
  asymptotic velocities that the source computes are finite only if none of these
  divisors is zero.
\<close>

definition asymptotic_velocity_divisors_nonzero :: "SN_locals \<Rightarrow> bool" where
  "asymptotic_velocity_divisors_nonzero L \<longleftrightarrow>
     sn_h_post L \<noteq> 0 \<and> sn_e_post L \<noteq> 0 \<and> sn_e_post L * sn_e_post L \<noteq> 0
     \<and> Magnitude (sn_E_post L) \<noteq> 0 \<and> Magnitude (sn_H_post L) \<noteq> 0 \<and> sn_mb_post L \<noteq> 0"

text \<open>The \<^verbatim>\<open>else\<close> branch: the binary is still bound.\<close>

definition ResolveSupernova_still_bound ::
  "constants_h \<Rightarrow> 'st star_ops \<Rightarrow> 'st externals \<Rightarrow> SN_locals \<Rightarrow> 'st BaseBinaryStar
     \<Rightarrow> 'st BaseBinaryStar" where
  "ResolveSupernova_still_bound K S X L b =
     (let b1 = star_upd (m_Supernova b) (UpdateComponentVelocity S
                 (RotateVector (sn_Vcm_post L) (m_ThetaE b) (m_PhiE b) (m_PsiE b))) b;
          b2 = star_upd (m_Companion b1) (UpdateComponentVelocity S
                 (RotateVector (sn_Vcm_post L) (m_ThetaE b1) (m_PhiE b1) (m_PsiE b1))) b1;
          b3 = b2\<lparr>m_ThetaE := angleBetween X (vdiv (sn_H L) (sn_h L))
                                             (vdiv (sn_H_post L) (sn_h_post L))\<rparr>;
          b4 =
            (if Compare K (m_ThetaE b3) 0 = 0
                \<and> (Compare K (sn_e L) 0 > 0 \<and> Compare K (sn_e_post L) 0 > 0) then
               (let psiPlusPhi = angleBetween X (sn_E L) (sn_E_post L);
                    (x, c1) = Random X b3;
                    c2 = c1\<lparr>m_PhiE := twoPI K * x\<rparr>
                in c2\<lparr>m_PsiE := psiPlusPhi - m_PhiE c2\<rparr>)
             else if Compare K (m_ThetaE b3) pi = 0
                \<and> (Compare K (sn_e L) 0 > 0 \<and> Compare K (sn_e_post L) 0 > 0) then
               (let psiMinusPhi = angleBetween X (sn_E L) (sn_E_post L);
                    (x, c1) = Random X b3;
                    c2 = c1\<lparr>m_PhiE := twoPI K * x\<rparr>
                in c2\<lparr>m_PsiE := psiMinusPhi + m_PhiE c2\<rparr>)
             else
               (let N = cross (sn_H L) (sn_H_post L);
                    n = Magnitude N;
                    c1 = (if Compare K (sn_e L) 0 = 0 then
                            (let (x, d1) = Random X b3 in d1\<lparr>m_PhiE := twoPI K * x\<rparr>)
                          else
                            b3\<lparr>m_PhiE :=
                                 (if Compare K (dot (sn_E L) (sn_H_post L)) 0 \<ge> 0
                                  then angleBetween X (vdiv (sn_E L) (sn_e L)) (vdiv N n)
                                  else - angleBetween X (vdiv (sn_E L) (sn_e L)) (vdiv N n))\<rparr>)
                in (if Compare K (sn_e_post L) 0 = 0 then
                      (let (x, d1) = Random X c1 in d1\<lparr>m_PsiE := twoPI K * x\<rparr>)
                    else
                      c1\<lparr>m_PsiE :=
                           (if Compare K (dot (sn_E_post L) (sn_H L)) 0 \<ge> 0
                            then angleBetween X (vdiv (sn_E_post L) (sn_e_post L)) (vdiv N n)
                            else - angleBetween X (vdiv (sn_E_post L) (sn_e_post L)) (vdiv N n))\<rparr>)));
          (x, b5) = Random X b4
      in b5\<lparr>m_PsiE := twoPI K * x\<rparr>)"

text \<open>
  The branch of \<^verbatim>\<open>ResolveSupernova\<close> for a binary that \<^verbatim>\<open>IsUnbound()\<close> does not report as
  unbound.
\<close>

definition ResolveSupernova_intact ::
  "constants_h \<Rightarrow> 'st star_ops \<Rightarrow> 'st externals \<Rightarrow> real \<Rightarrow> 'st BaseBinaryStar
     \<Rightarrow> 'st BaseBinaryStar" where
  "ResolveSupernova_intact K S X theta b =
     (let m1 = MassPrev S (star_of b (m_Supernova b));
          m2 = MassPrev S (star_of b (m_Companion b));
          b1 = star_upd (m_Supernova b) (CalculateSNAnomalies S (m_EccentricityPrev b)) b;
          L = SN_orbit K S X theta m1 m2 b1;
          b2 = b1\<lparr>m_OrbitalVelocityPreSN := Some (sn_v L)\<rparr>;
          b3 = b2\<lparr>m_uK := Some (SN_KickMagnitude S (star_of b2 (m_Supernova b2)) / sn_v L)\<rparr>;
          b4 = UpdateSystemicVelocity
                 (RotateVector (sn_Vcm_post L) (m_ThetaE b3) (m_PhiE b3) (m_PsiE b3)) b3;
          b5 = (if Compare K (sn_e_post L) 1 \<ge> 0
                then ResolveSupernova_now_unbound K S X L b4
                else ResolveSupernova_still_bound K S X L b4);
          b6 = star_upd (m_Companion b5) (CheckRunaway S (m_Unbound b5)) b5;
          b7 = b6\<lparr>m_Eccentricity := sn_e_post L\<rparr>
      in b7\<lparr>m_SemiMajorAxis := sn_a_post L * KM_TO_AU K\<rparr>)"

text \<open>
  \<^verbatim>\<open>ResolveSupernova\<close>: the returned flag and the binary after the call.
\<close>

definition ResolveSupernova ::
  "constants_h \<Rightarrow> 'st star_ops \<Rightarrow> 'st externals \<Rightarrow> 'st BaseBinaryStar
     \<Rightarrow> bool \<times> 'st BaseBinaryStar" where
  "ResolveSupernova K S X b =
     (if \<not> IsSNevent S (star_of b (m_Supernova b)) then
        (False, emit (SHOW_WARN RESOLVE_SUPERNOVA_IMPROPERLY_CALLED) b)
      else
        (let b1 = b\<lparr>m_EccentricityPreSN := m_EccentricityPrev b\<rparr>;
             b2 = b1\<lparr>m_SemiMajorAxisPreSN := m_SemiMajorAxisPrev b1\<rparr>;
             totalMassPreSN = MassPrev S (star_of b2 (m_Supernova b2))
                                + MassPrev S (star_of b2 (m_Companion b2));
             reducedMassPreSN = MassPrev S (star_of b2 (m_Supernova b2))
                                  * MassPrev S (star_of b2 (m_Companion b2)) / totalMassPreSN;
             b3 = star_upd (m_Supernova b2) (SetOrbitalEnergyPreSN S
                    (CalculateOrbitalEnergy X reducedMassPreSN totalMassPreSN (m_SemiMajorAxisPreSN b2))) b2;
             theta = SN_Theta S (star_of b3 (m_Supernova b3));
             phi = SN_Phi S (star_of b3 (m_Supernova b3));
             natalKickVector = smult (SN_KickMagnitude S (star_of b3 (m_Supernova b3)))
                (Vector3d (cos theta * cos phi) (cos theta * sin phi) (sin theta));
             b4 = (if IsUnbound X b3 then
                     (let c1 = star_upd (m_Supernova b3) (UpdateComponentVelocity S
                                 (RotateVector natalKickVector (m_ThetaE b3) (m_PhiE b3) (m_PsiE b3))) b3;
                          c2 = c1\<lparr>m_OrbitalVelocityPreSN := None\<rparr>
                      in c2\<lparr>m_uK := None\<rparr>)
                   else ResolveSupernova_intact K S X theta b3);
             totalMass = Mass S (star_of b4 (m_Supernova b4)) + Mass S (star_of b4 (m_Companion b4));
             reducedMass = Mass S (star_of b4 (m_Supernova b4))
                             * Mass S (star_of b4 (m_Companion b4)) / totalMass;
             b5 = star_upd (m_Supernova b4) (SetOrbitalEnergyPostSN S
                    (CalculateOrbitalEnergy X reducedMass totalMass (m_SemiMajorAxis b4))) b4;
             b6 = b5\<lparr>m_IPrime := m_ThetaE b5\<rparr>;
             b7 = b6\<lparr>m_CosIPrime := cos (m_IPrime b6)\<rparr>;
             b8 = emit PrintSupernovaDetails b7;
             b9 = star_upd (m_Supernova b8) (ClearCurrentSNEvent S) b8
         in (True, b9)))"

subsection \<open>The contract of the constituent star\<close>


subsection \<open>A concrete instance\<close>

text \<open>
  A small star, with the fields that the member functions above read, to evaluate the
  model on concrete binaries. A new star gets the radius \<open>rad\<close>; the loss of the
  envelope leaves the core, as a naked helium star of radius \<open>1\<close>.
\<close>

record test_star =
  ts_mass :: real
  ts_massPrev :: real
  ts_coreMass :: real
  ts_radius :: real
  ts_type :: STELLAR_TYPE
  ts_rlof :: bool
  ts_lambda :: real
  ts_snEvent :: bool
  ts_kick :: real
  ts_theta :: real
  ts_phi :: real
  ts_eccentricAnomaly :: real
  ts_trueAnomaly :: real
  ts_velocity :: Vector3d

definition test_ops :: "real \<Rightarrow> test_star star_ops" where
  "test_ops rad =
     \<lparr>BinaryConstituentStar_new = (\<lambda>seed m z lbv wr.
        \<lparr>ts_mass = m, ts_massPrev = m, ts_coreMass = 0, ts_radius = rad, ts_type = MS_GT_07,
         ts_rlof = False, ts_lambda = 1, ts_snEvent = False, ts_kick = 0, ts_theta = 0,
         ts_phi = 0, ts_eccentricAnomaly = 0, ts_trueAnomaly = 0,
         ts_velocity = Vector3d 0 0 0\<rparr>),
      Mass = ts_mass, MassPrev = ts_massPrev, CoreMass = ts_coreMass, Radius = ts_radius,
      RadiusPostCEE = ts_radius, StellarType = ts_type, IsRLOF = ts_rlof,
      LambdaAtCEE = ts_lambda, IsSNevent = ts_snEvent, SN_Theta = ts_theta, SN_Phi = ts_phi,
      SN_KickMagnitude = ts_kick, SN_EccentricAnomaly = ts_eccentricAnomaly,
      SN_TrueAnomaly = ts_trueAnomaly,
      CalculateLambdas = (\<lambda>env s. s),
      CalculateBindingEnergies = (\<lambda>mf env r s. s),
      CalculateCommonEnvelopeValues = (\<lambda>s. s),
      Star_SetPreCEEValues = (\<lambda>s. s),
      Star_SetPostCEEValues = (\<lambda>s. s),
      ResolveCommonEnvelopeAccretion = (\<lambda>mf s. s),
      ResolveEnvelopeLossAndSwitch =
        (\<lambda>s. s\<lparr>ts_mass := ts_coreMass s, ts_type := NAKED_HELIUM_STAR_MS, ts_radius := 1\<rparr>),
      UpdateAttributes = (\<lambda>dm dm0 f s. s\<lparr>ts_mass := ts_mass s + dm\<rparr>),
      SetOmega = (\<lambda>w s. s),
      SetOrbitalEnergyPreSN = (\<lambda>x s. s),
      SetOrbitalEnergyPostSN = (\<lambda>x s. s),
      UpdateComponentVelocity = (\<lambda>v s. s\<lparr>ts_velocity := vadd (ts_velocity s) v\<rparr>),
      CalculateSNAnomalies = (\<lambda>e s. s),
      CheckRunaway = (\<lambda>u s. s),
      ClearCurrentSNEvent = (\<lambda>s. s\<lparr>ts_snEvent := False\<rparr>)\<rparr>"

definition test_constants :: constants_h where
  "test_constants =
     \<lparr>COMPARE_WITH_TOLERANCE = False, FLOAT_TOLERANCE_ABSOLUTE = 0, FLOAT_TOLERANCE_RELATIVE = 0,
      G = 667 / 10 ^ 13, G1 = 4 * pi * pi, G_SN = 1327 * 10 ^ 8, C = 3 * 10 ^ 8,
      AU = 15 * 10 ^ 10, MSOL_TO_KG = 2 * 10 ^ 30, SECONDS_IN_YEAR = 31557600,
      YEAR_TO_MYR = 1 / 10 ^ 6, HUBBLE_TIME = 435 * 10 ^ 15, RSOL_TO_AU = 1 / 215,
      AU_TO_RSOL = 215, AU_TO_KM = 15 * 10 ^ 7, KM_TO_AU = 1 / (15 * 10 ^ 7), twoPI = 2 * pi,
      MAXIMUM_MASS_TRANSFER_FRACTION_PER_STEP = 1 / 1000,
      ALL_MAIN_SEQUENCE = [MS_LTE_07, MS_GT_07, NAKED_HELIUM_STAR_MS],
      ALL_HERTZSPRUNG_GAP = [HERTZSPRUNG_GAP, NAKED_HELIUM_STAR_HERTZSPRUNG_GAP],
      COMPACT_OBJECTS = [HELIUM_WHITE_DWARF, CARBON_OXYGEN_WHITE_DWARF, OXYGEN_NEON_WHITE_DWARF,
                         NEUTRON_STAR, BLACK_HOLE]\<rparr>"

definition test_options :: "bool \<Rightarrow> bool \<Rightarrow> options" where
  "test_options allowRLOF allowMS =
     \<lparr>AllowRLOFAtBirth = allowRLOF, AllowTouchingAtBirth = True, MinimumMassSecondary = 1 / 10,
      AIS_RefinementPhase = False, InitialMassFunctionMin = 5, InitialMassFunctionMax = 150,
      MassRatioDistributionMin = 0, MassRatioDistributionMax = 1,
      SemiMajorAxisDistributionMin = 1 / 100, SemiMajorAxisDistributionMax = 1000,
      AllowMainSequenceStarToSurviveCommonEnvelope = allowMS, CHE_Option = CHE_NONE,
      MassTransferAngularMomentumLossPrescription = ISOTROPIC_RE_EMISSION,
      MassTransferJloss = 1\<rparr>"

definition test_externals :: "test_star externals" where
  "test_externals =
     \<lparr>IsUnbound = m_Unbound,
      Eccentricity = m_Eccentricity,
      SemiMajorAxisRsol = (\<lambda>b. m_SemiMajorAxis b * 215),
      PeriastronRsol = (\<lambda>b. m_SemiMajorAxis b * (1 - m_Eccentricity b) * 215),
      OrbitalAngularVelocity = (\<lambda>b. 0),
      CalculateOrbitalEnergy = (\<lambda>mu M a. - (mu * M) / (2 * a)),
      angleBetween = (\<lambda>a b. arccos (dot a b / (Magnitude a * Magnitude b))),
      RAND_Random = (\<lambda>n. 0)\<rparr>"

definition test_star0 :: test_star where
  "test_star0 =
     \<lparr>ts_mass = 1, ts_massPrev = 1, ts_coreMass = 0, ts_radius = 1, ts_type = MS_GT_07,
      ts_rlof = False, ts_lambda = 1, ts_snEvent = False, ts_kick = 0, ts_theta = 0,
      ts_phi = 0, ts_eccentricAnomaly = 0, ts_trueAnomaly = 0, ts_velocity = Vector3d 0 0 0\<rparr>"

definition test_binary :: "test_star \<Rightarrow> test_star \<Rightarrow> real \<Rightarrow> real \<Rightarrow> test_star BaseBinaryStar" where
  "test_binary s1 s2 a e =
     \<lparr>m_Star1 = s1, m_Star2 = s2, m_Supernova = STAR1, m_Companion = STAR2,
      m_SemiMajorAxis = a, m_Eccentricity = e, m_SemiMajorAxisPrev = a, m_EccentricityPrev = e,
      m_SemiMajorAxisPreSN = 0, m_EccentricityPreSN = 0, m_OrbitalVelocityPreSN = Some 0,
      m_uK = Some 0, m_SemiMajorAxisAtDCOFormation = 0, m_EccentricityAtDCOFormation = 0,
      m_TimeToCoalescence = 0, m_Merged = False, m_MergesInHubbleTime = False,
      m_Unbound = False, m_StellarMerger = False, m_SystemicVelocity = Vector3d 0 0 0,
      m_SystemicSpeed = 0, m_ThetaE = 0, m_PhiE = 0, m_PsiE = 0, m_IPrime = 0, m_CosIPrime = 0,
      m_Mass1Final = 0, m_Mass2Final = 0, m_MassEnv1 = 0, m_MassEnv2 = 0,
      m_CEDetails = \<lparr>alpha = 1, CEEcount = 0, doubleCoreCE = False, optimisticCE = False,
        preCEE = \<lparr>cee_semiMajorAxis = 0, cee_eccentricity = 0, cee_rocheLobe1to2 = 0,
                  cee_rocheLobe2to1 = 0\<rparr>,
        postCEE = \<lparr>cee_semiMajorAxis = 0, cee_eccentricity = 0, cee_rocheLobe1to2 = 0,
                   cee_rocheLobe2to1 = 0\<rparr>\<rparr>,
      m_RLOFDetails = \<lparr>immediateRLOFPostCEE = False, simultaneousRLOF = False\<rparr>,
      m_MassTransferTrackerHistory = NO_MASS_TRANSFER, m_PrintExtraDetailedOutput = False,
      m_Error = NO_ERROR, m_RandomSeed = 0, m_LBVfactor = 3 / 2, m_WolfRayetFactor = 1,
      m_MassesEquilibrated = False, m_MassesEquilibratedAtBirth = False,
      trace = [], rand_draws = 0\<rparr>"

text \<open>The draws of a pass, for the concrete instance.\<close>

definition test_draw :: "real \<Rightarrow> real \<Rightarrow> real \<Rightarrow> real \<Rightarrow> draw" where
  "test_draw m1 q a e = \<lparr>d_mass1 = m1, d_massRatio = q, d_metallicity1 = 1 / 50,
     d_metallicity2 = 1 / 50, d_semiMajorAxis = a, d_eccentricity = e\<rparr>"

text \<open>A giant with a core, for the concrete instance.\<close>

definition test_giant :: test_star where
  "test_giant = test_star0\<lparr>ts_mass := 10, ts_coreMass := 9, ts_radius := 100,
     ts_type := FIRST_GIANT_BRANCH, ts_rlof := True, ts_lambda := 100\<rparr>"

text \<open>
  A star that undergoes a supernova at eccentric anomaly \<open>0\<close>, with a kick in the orbital
  plane (\<open>\<theta> = 0\<close>, \<open>\<phi> = - \<pi>\<close>) whose magnitude is the orbital speed \<open>\<omega> a\<close> of a circular
  binary of total mass \<open>2\<close> at \<open>1\<close> AU, with the constants of the instance.
\<close>

definition test_supernova :: test_star where
  "test_supernova = test_star0\<lparr>ts_snEvent := True,
     ts_kick := sqrt (1327 * 10 ^ 8 * 2 / (15 * 10 ^ 7 * (15 * 10 ^ 7) * (15 * 10 ^ 7))) * (15 * 10 ^ 7),
     ts_theta := 0, ts_phi := - pi\<rparr>"

section \<open>Properties\<close>

subsection \<open>Comparison\<close>

lemma Compare_zero_zero: "Compare K 0 0 = 0"
  by (simp add: Compare_def)

lemma Compare_less_0D: "Compare K x y < 0 \<Longrightarrow> x < y"
  by (auto simp: Compare_def split: if_splits)

lemma Compare_exact:
  "\<not> COMPARE_WITH_TOLERANCE K \<Longrightarrow>
     Compare K x y = (if x = y then 0 else if x < y then - 1 else 1)"
  by (simp add: Compare_def)

subsection \<open>Roche lobe radius\<close>

lemma ln2_lower: "(27/40 :: real) \<le> ln 2"
proof -
  have "(1 - (27/40) / real 16) ^ 16 \<le> exp (- (27/40 :: real))"
    by (rule exp_ge_one_minus_x_over_n_power_n) simp_all
  moreover have "(1/2 :: real) \<le> (1 - (27/40) / real 16) ^ 16"
    by (simp add: power_divide)
  ultimately have "(1/2 :: real) \<le> exp (- (27/40))" by linarith
  then have "ln (1/2 :: real) \<le> ln (exp (- (27/40)))" by (intro ln_mono) simp_all
  then show ?thesis by (simp add: ln_div)
qed

lemma ln2_upper: "ln 2 \<le> (7/10 :: real)"
proof -
  have "(1 + (7/10) / real 64) ^ 64 \<le> exp (7/10 :: real)"
    by (rule exp_ge_one_plus_x_over_n_power_n) simp_all
  moreover have "(2 :: real) \<le> (1 + (7/10) / real 64) ^ 64"
    by (simp add: power_divide)
  ultimately have "(2 :: real) \<le> exp (7/10)" by linarith
  then have "ln (2::real) \<le> ln (exp (7/10))" by (intro ln_mono) simp_all
  then show ?thesis by simp
qed

lemma RL_equal_masses:
  assumes "m \<noteq> 0"
  shows "CalculateRocheLobeRadius_Static m m = 0.49 / (0.6 + ln 2)"
  using assms by (simp add: CalculateRocheLobeRadius_Static_def pow_def)

lemma RL_equal_masses_bounds:
  assumes "m \<noteq> 0"
  shows "0.376 < CalculateRocheLobeRadius_Static m m" "CalculateRocheLobeRadius_Static m m < 0.385"
proof -
  have eq: "CalculateRocheLobeRadius_Static m m = 0.49 / (0.6 + ln 2)"
    using assms by (rule RL_equal_masses)
  have pos: "0 < 0.6 + ln (2::real)" using ln2_lower by linarith
  show "0.376 < CalculateRocheLobeRadius_Static m m"
    unfolding eq using ln2_upper pos by (simp add: field_simps)
  show "CalculateRocheLobeRadius_Static m m < 0.385"
    unfolding eq using ln2_lower pos by (simp add: field_simps)
qed

text \<open>
  C7. For positive masses \<open>m1\<close>, \<open>m2\<close> and a positive factor \<open>c\<close>, the Roche lobe radius
  of \<open>(c * m1, c * m2)\<close> is that of \<open>(m1, m2)\<close>: it depends on the mass ratio only. At
  equal masses its value, in units of the semi-major axis, is \<open>0.49 / (0.6 + ln 2)\<close>,
  which is \<open>0.38\<close> to within \<open>0.005\<close>.
\<close>

theorem RocheLobe_scale_invariant:
  assumes "0 < m1" "0 < m2" "0 < c"
  shows "CalculateRocheLobeRadius_Static (c * m1) (c * m2) = CalculateRocheLobeRadius_Static m1 m2
         \<and> CalculateRocheLobeRadius_Static m1 m1 = 0.49 / (0.6 + ln 2)
         \<and> \<bar>CalculateRocheLobeRadius_Static m1 m1 - 0.38\<bar> < 0.005"
proof -
  have "c * m1 / (c * m2) = m1 / m2" using assms by simp
  then have 1: "CalculateRocheLobeRadius_Static (c * m1) (c * m2) = CalculateRocheLobeRadius_Static m1 m2"
    by (simp add: CalculateRocheLobeRadius_Static_def)
  have m: "m1 \<noteq> 0" using assms by simp
  have b: "0.376 < CalculateRocheLobeRadius_Static m1 m1"
          "CalculateRocheLobeRadius_Static m1 m1 < 0.385"
    by (rule RL_equal_masses_bounds[OF m])+
  from b have "376 / 1000 < CalculateRocheLobeRadius_Static m1 m1"
    "CalculateRocheLobeRadius_Static m1 m1 < 385 / 1000" by simp_all
  then have "\<bar>CalculateRocheLobeRadius_Static m1 m1 - 380 / 1000\<bar> < 5 / 1000"
    by linarith
  then have 3: "\<bar>CalculateRocheLobeRadius_Static m1 m1 - 0.38\<bar> < 0.005" by simp
  show ?thesis
    using 1 RL_equal_masses[OF m] 3 by blast
qed

theorem RocheLobe_scale_invariant_witness:
  "(0::real) < 10 \<and> (0::real) < 8 \<and> (0::real) < 2
   \<and> CalculateRocheLobeRadius_Static (2 * 10) (2 * 8) = CalculateRocheLobeRadius_Static 10 8
   \<and> CalculateRocheLobeRadius_Static 10 10 = 0.49 / (0.6 + ln 2)
   \<and> \<bar>CalculateRocheLobeRadius_Static 10 10 - 0.38\<bar> < 0.005"
proof -
  have h: "(0::real) < 10" "(0::real) < 8" "(0::real) < 2" by simp_all
  from RocheLobe_scale_invariant[OF h] h show ?thesis by blast
qed

subsection \<open>Coalescence\<close>

text \<open>
  C5. At eccentricity \<open>0\<close> the time to coalescence is the value for a circular orbit,
  \<open>a\<^sup>4 / (4 \<beta>)\<close> with \<open>\<beta> = (64/5) G\<^sup>3 m1 m2 (m1 + m2) / c\<^sup>5\<close>: the function returns it
  as it is, and the quadrature loop is not entered.
\<close>

theorem TimeToCoalescence_circular:
  "CalculateTimeToCoalescence K a 0 m1 m2 =
     Some (a ^ 4 / (4 * ((64 / 5) * G K ^ 3 * m1 * m2 * (m1 + m2) / C K ^ 5)))"
  by (simp add: CalculateTimeToCoalescence_def Compare_def Let_def power4_eq_xxxx power3_eq_cube
      power_numeral_reduce mult.assoc)

text \<open>The quadrature loop returns for every eccentricity (in exact arithmetic).\<close>

lemma loop_returns_aux:
  "0 < de \<Longrightarrow> ecc \<le> e + real n * de \<Longrightarrow>
     \<exists>r. CalculateTimeToCoalescence_loop K ecc de e acc = Some r"
proof (induction n arbitrary: e acc)
  case 0
  then have "\<not> Compare K e ecc < 0" using Compare_less_0D[of K e ecc] by auto
  then show ?case by (subst CalculateTimeToCoalescence_loop.simps) simp
next
  case (Suc n)
  show ?case
  proof (cases "Compare K e ecc < 0")
    case False
    then show ?thesis by (subst CalculateTimeToCoalescence_loop.simps) simp
  next
    case True
    have "ecc \<le> (e + de) + real n * de" using Suc.prems by (simp add: algebra_simps)
    from Suc.IH[OF Suc.prems(1) this] show ?thesis
      using True by (subst CalculateTimeToCoalescence_loop.simps) (simp add: Let_def)
  qed
qed

lemma loop_returns:
  "\<exists>r. CalculateTimeToCoalescence_loop K ecc (ecc / 10000) 0 0 = Some r"
proof (cases "0 < ecc")
  case True
  then show ?thesis by (intro loop_returns_aux[where n = 10000]) simp_all
next
  case False
  then have "\<not> Compare K 0 ecc < 0" using Compare_less_0D[of K 0 ecc] by auto
  then show ?thesis by (subst CalculateTimeToCoalescence_loop.simps) simp
qed

lemma CalculateTimeToCoalescence_returns:
  "\<exists>t. CalculateTimeToCoalescence K a e m1 m2 = Some t"
  using loop_returns[of K e]
  by (auto simp: CalculateTimeToCoalescence_def Let_def)

lemma TimeToCoalescence_circular_value:
  "CalculateTimeToCoalescence K a 0 m1 m2 =
     Some (a ^ 4 / (4 * ((64 / 5) * G K ^ 3 * m1 * m2 * (m1 + m2) / C K ^ 5)))"
  by (simp add: CalculateTimeToCoalescence_def Compare_def Let_def power4_eq_xxxx power3_eq_cube
      power_numeral_reduce mult.assoc)

text \<open>
  C10. \<^verbatim>\<open>ResolveCoalescence\<close> returns, and after it the flags \<open>m_Merged\<close> and
  \<open>m_MergesInHubbleTime\<close> are equal: both are true if the comparison of the time to
  coalescence with \<open>HUBBLE_TIME\<close> gives ``less'', and both are false otherwise. Without
  the tolerance the comparison is \<open>tC < HUBBLE_TIME\<close>.
\<close>

theorem ResolveCoalescence_flags_agree:
  "\<exists>b' tC.
     ResolveCoalescence K S b = Some b'
     \<and> CalculateTimeToCoalescence K (m_SemiMajorAxis b * AU K) (m_Eccentricity b)
          (Mass S (m_Star1 b) * MSOL_TO_KG K) (Mass S (m_Star2 b) * MSOL_TO_KG K) = Some tC
     \<and> m_Merged b' = m_MergesInHubbleTime b'
     \<and> (m_Merged b' \<longleftrightarrow> Compare K tC (HUBBLE_TIME K) < 0)
     \<and> (m_MergesInHubbleTime b' \<longleftrightarrow> Compare K tC (HUBBLE_TIME K) < 0)
     \<and> (\<not> COMPARE_WITH_TOLERANCE K \<longrightarrow> (m_Merged b' \<longleftrightarrow> tC < HUBBLE_TIME K))"
proof -
  obtain tC where tC: "CalculateTimeToCoalescence K (m_SemiMajorAxis b * AU K) (m_Eccentricity b)
          (Mass S (m_Star1 b) * MSOL_TO_KG K) (Mass S (m_Star2 b) * MSOL_TO_KG K) = Some tC"
    using CalculateTimeToCoalescence_returns by blast
  show ?thesis
    using tC by (auto simp: ResolveCoalescence_def Let_def emit_def Compare_def)
qed

theorem ResolveCoalescence_flags_agree_witness:
  "\<exists>b'. ResolveCoalescence test_constants (test_ops 1) (test_binary test_star0 test_star0 1 0) = Some b'
     \<and> m_Merged b' = m_MergesInHubbleTime b' \<and> \<not> m_Merged b'"
proof -
  let ?B = "test_binary test_star0 test_star0 1 0"
  have e0: "m_Eccentricity ?B = 0" by (simp add: test_binary_def)
  have nt: "\<not> COMPARE_WITH_TOLERANCE test_constants" by (simp add: test_constants_def)
  from ResolveCoalescence_flags_agree[of test_constants "test_ops 1" ?B]
  obtain b' tC where r: "ResolveCoalescence test_constants (test_ops 1) ?B = Some b'"
    and t: "CalculateTimeToCoalescence test_constants (m_SemiMajorAxis ?B * AU test_constants)
          (m_Eccentricity ?B) (Mass (test_ops 1) (m_Star1 ?B) * MSOL_TO_KG test_constants)
          (Mass (test_ops 1) (m_Star2 ?B) * MSOL_TO_KG test_constants) = Some tC"
    and eq: "m_Merged b' = m_MergesInHubbleTime b'"
    and ex: "\<not> COMPARE_WITH_TOLERANCE test_constants \<longrightarrow> (m_Merged b' \<longleftrightarrow> tC < HUBBLE_TIME test_constants)"
    by blast
  from t have "tC = (m_SemiMajorAxis ?B * AU test_constants) ^ 4
        / (4 * ((64 / 5) * G test_constants ^ 3 * (Mass (test_ops 1) (m_Star1 ?B) * MSOL_TO_KG test_constants)
                 * (Mass (test_ops 1) (m_Star2 ?B) * MSOL_TO_KG test_constants)
                 * ((Mass (test_ops 1) (m_Star1 ?B) * MSOL_TO_KG test_constants)
                     + (Mass (test_ops 1) (m_Star2 ?B) * MSOL_TO_KG test_constants)) / C test_constants ^ 5))"
    unfolding e0 TimeToCoalescence_circular_value by simp
  then have "\<not> tC < HUBBLE_TIME test_constants"
    by (simp add: test_binary_def test_constants_def test_ops_def test_star0_def power_divide)
  with ex nt have "\<not> m_Merged b'" by blast
  with r eq show ?thesis by blast
qed

subsection \<open>The concrete instance\<close>

lemma Compare_exact_gt: "\<not> COMPARE_WITH_TOLERANCE K \<Longrightarrow> Compare K x y > 0 \<longleftrightarrow> y < x"
  by (auto simp: Compare_def)

lemma Compare_exact_lt: "\<not> COMPARE_WITH_TOLERANCE K \<Longrightarrow> Compare K x y < 0 \<longleftrightarrow> x < y"
  by (auto simp: Compare_def)


lemma test_constants_sel:
  "COMPARE_WITH_TOLERANCE test_constants = False"
  "G test_constants = 667 / 10 ^ 13" "G1 test_constants = 4 * pi * pi"
  "G_SN test_constants = 1327 * 10 ^ 8" "C test_constants = 3 * 10 ^ 8"
  "AU test_constants = 15 * 10 ^ 10" "MSOL_TO_KG test_constants = 2 * 10 ^ 30"
  "SECONDS_IN_YEAR test_constants = 31557600" "YEAR_TO_MYR test_constants = 1 / 10 ^ 6"
  "HUBBLE_TIME test_constants = 435 * 10 ^ 15" "RSOL_TO_AU test_constants = 1 / 215"
  "AU_TO_RSOL test_constants = 215" "AU_TO_KM test_constants = 15 * 10 ^ 7"
  "KM_TO_AU test_constants = 1 / (15 * 10 ^ 7)" "twoPI test_constants = 2 * pi"
  "MAXIMUM_MASS_TRANSFER_FRACTION_PER_STEP test_constants = 1 / 1000"
  "ALL_MAIN_SEQUENCE test_constants = [MS_LTE_07, MS_GT_07, NAKED_HELIUM_STAR_MS]"
  "ALL_HERTZSPRUNG_GAP test_constants = [HERTZSPRUNG_GAP, NAKED_HELIUM_STAR_HERTZSPRUNG_GAP]"
  "COMPACT_OBJECTS test_constants = [HELIUM_WHITE_DWARF, CARBON_OXYGEN_WHITE_DWARF,
     OXYGEN_NEON_WHITE_DWARF, NEUTRON_STAR, BLACK_HOLE]"
  by (simp_all add: test_constants_def)

lemma Compare_test_constants:
  "Compare test_constants x y = (if x = y then 0 else if x < y then - 1 else 1)"
  by (simp add: Compare_def test_constants_sel)

lemma test_options_sel:
  "AllowRLOFAtBirth (test_options r m) = r" "AllowTouchingAtBirth (test_options r m) = True"
  "MinimumMassSecondary (test_options r m) = 1 / 10" "AIS_RefinementPhase (test_options r m) = False"
  "AllowMainSequenceStarToSurviveCommonEnvelope (test_options r m) = m"
  "CHE_Option (test_options r m) = CHE_NONE"
  "MassTransferAngularMomentumLossPrescription (test_options r m) = ISOTROPIC_RE_EMISSION"
  "MassTransferJloss (test_options r m) = 1"
  by (simp_all add: test_options_def)

lemma test_ops_sel:
  "BinaryConstituentStar_new (test_ops rad) seed m z lbv wr =
     \<lparr>ts_mass = m, ts_massPrev = m, ts_coreMass = 0, ts_radius = rad, ts_type = MS_GT_07,
      ts_rlof = False, ts_lambda = 1, ts_snEvent = False, ts_kick = 0, ts_theta = 0,
      ts_phi = 0, ts_eccentricAnomaly = 0, ts_trueAnomaly = 0, ts_velocity = Vector3d 0 0 0\<rparr>"
  "Mass (test_ops rad) = ts_mass" "MassPrev (test_ops rad) = ts_massPrev"
  "CoreMass (test_ops rad) = ts_coreMass" "Radius (test_ops rad) = ts_radius"
  "RadiusPostCEE (test_ops rad) = ts_radius" "StellarType (test_ops rad) = ts_type"
  "IsRLOF (test_ops rad) = ts_rlof" "LambdaAtCEE (test_ops rad) = ts_lambda"
  "IsSNevent (test_ops rad) = ts_snEvent" "SN_Theta (test_ops rad) = ts_theta"
  "SN_Phi (test_ops rad) = ts_phi" "SN_KickMagnitude (test_ops rad) = ts_kick"
  "SN_EccentricAnomaly (test_ops rad) = ts_eccentricAnomaly"
  "SN_TrueAnomaly (test_ops rad) = ts_trueAnomaly"
  "CalculateLambdas (test_ops rad) env s = s"
  "CalculateBindingEnergies (test_ops rad) mf env r s = s"
  "CalculateCommonEnvelopeValues (test_ops rad) s = s"
  "Star_SetPreCEEValues (test_ops rad) s = s"
  "Star_SetPostCEEValues (test_ops rad) s = s"
  "ResolveCommonEnvelopeAccretion (test_ops rad) mf s = s"
  "ResolveEnvelopeLossAndSwitch (test_ops rad) s =
     s\<lparr>ts_mass := ts_coreMass s, ts_type := NAKED_HELIUM_STAR_MS, ts_radius := 1\<rparr>"
  "UpdateAttributes (test_ops rad) dm dm0 f s = s\<lparr>ts_mass := ts_mass s + dm\<rparr>"
  "SetOmega (test_ops rad) w s = s"
  "SetOrbitalEnergyPreSN (test_ops rad) x s = s"
  "SetOrbitalEnergyPostSN (test_ops rad) x s = s"
  "UpdateComponentVelocity (test_ops rad) v s = s\<lparr>ts_velocity := vadd (ts_velocity s) v\<rparr>"
  "CalculateSNAnomalies (test_ops rad) e s = s"
  "CheckRunaway (test_ops rad) u s = s"
  "ClearCurrentSNEvent (test_ops rad) s = s\<lparr>ts_snEvent := False\<rparr>"
  by (simp_all add: test_ops_def)

subsection \<open>Roche lobe radius, bounds\<close>

lemma RL_pos_lt_1:
  assumes "0 < m1" "0 < m2"
  shows "0 < CalculateRocheLobeRadius_Static m1 m2" "CalculateRocheLobeRadius_Static m1 m2 < 1"
proof -
  define c where "c = (m1 / m2) powr (1 / 3)"
  have c: "0 < c" using assms by (simp add: c_def)
  then have "0 < ln (1 + c)" by (simp add: ln_gt_zero)
  with c have t: "0 < ln (1 + c) / c / c" by simp
  have eq: "CalculateRocheLobeRadius_Static m1 m2 = 0.49 / (0.6 + ln (1 + c) / c / c)"
    by (simp add: CalculateRocheLobeRadius_Static_def pow_def c_def Let_def)
  show "0 < CalculateRocheLobeRadius_Static m1 m2"
    unfolding eq using t by (simp add: add_pos_pos)
  have "0.49 / (0.6 + ln (1 + c) / c / c) < 0.49 / 0.6"
    using t by (intro divide_strict_left_mono) (simp_all add: add_pos_pos)
  then show "CalculateRocheLobeRadius_Static m1 m2 < 1"
    unfolding eq by simp
qed

subsection \<open>Substeps\<close>

lemma numberIterations_ge_1: "1 \<le> numberIterations K m dm"
  by (simp add: numberIterations_def)

lemma dM_less_twice_maximum:
  assumes F: "0 < MAXIMUM_MASS_TRANSFER_FRACTION_PER_STEP K" and m: "0 < m"
  shows "\<bar>dM K m dm\<bar> < 2 * (MAXIMUM_MASS_TRANSFER_FRACTION_PER_STEP K * m)"
proof -
  let ?F = "MAXIMUM_MASS_TRANSFER_FRACTION_PER_STEP K"
  let ?x = "\<bar>dm / (?F * m)\<bar>"
  let ?n = "numberIterations K m dm"
  have Fm: "0 < ?F * m" using F m by simp
  have n1: "1 \<le> ?n" by (rule numberIterations_ge_1)
  have x: "?x = \<bar>dm\<bar> / (?F * m)" using F m by (simp add: abs_mult)
  have "?x < real_of_int \<lfloor>?x\<rfloor> + 1" by linarith
  moreover have "real_of_int \<lfloor>?x\<rfloor> \<le> real_of_int ?n" by (simp add: numberIterations_def)
  ultimately have "?x < real_of_int ?n + 1" by linarith
  also have "\<dots> \<le> 2 * real_of_int ?n" using n1 by simp
  finally have "\<bar>dm\<bar> / (?F * m) < 2 * real_of_int ?n" unfolding x .
  then have "\<bar>dm\<bar> < 2 * real_of_int ?n * (?F * m)" using Fm by (simp add: pos_divide_less_eq)
  then have "\<bar>dm\<bar> / real_of_int ?n < 2 * (?F * m)"
    using n1 by (simp add: pos_divide_less_eq mult.commute mult.left_commute)
  moreover have "\<bar>dM K m dm\<bar> = \<bar>dm\<bar> / real_of_int ?n"
    using n1 by (simp add: dM_def)
  ultimately show ?thesis by simp
qed

lemma dM_exceeds_maximum:
  assumes F: "0 < MAXIMUM_MASS_TRANSFER_FRACTION_PER_STEP K" and m: "0 < m"
  shows "numberIterations K m (- (3 / 2) * (MAXIMUM_MASS_TRANSFER_FRACTION_PER_STEP K * m)) = 1"
    and "dM K m (- (3 / 2) * (MAXIMUM_MASS_TRANSFER_FRACTION_PER_STEP K * m))
           = - (3 / 2) * (MAXIMUM_MASS_TRANSFER_FRACTION_PER_STEP K * m)"
    and "MAXIMUM_MASS_TRANSFER_FRACTION_PER_STEP K * m
           < \<bar>dM K m (- (3 / 2) * (MAXIMUM_MASS_TRANSFER_FRACTION_PER_STEP K * m))\<bar>"
proof -
  let ?F = "MAXIMUM_MASS_TRANSFER_FRACTION_PER_STEP K"
  have Fm: "0 < ?F * m" using F m by simp
  have a: "\<bar>(- (3 / 2) * (?F * m)) / (?F * m)\<bar> = 3 / 2" using F m by simp
  have fl: "\<lfloor>3 / 2 :: real\<rfloor> = 1" by simp
  show n: "numberIterations K m (- (3 / 2) * (?F * m)) = 1"
    unfolding numberIterations_def a fl by simp
  show d: "dM K m (- (3 / 2) * (?F * m)) = - (3 / 2) * (?F * m)"
    unfolding dM_def n by simp
  show "?F * m < \<bar>dM K m (- (3 / 2) * (?F * m))\<bar>"
    unfolding d using F m by (simp add: abs_mult)
qed

text \<open>
  C6. The number of substeps is \<open>max \<lfloor>\<bar>\<Delta>m / (F * m)\<bar>\<rfloor> 1\<close>, with \<open>F\<close> the maximum
  fraction per step: it grows with \<open>\<bar>\<Delta>m\<bar> / m\<close>, and (above) no substep reaches twice the
  fraction \<open>F\<close> of the donor's mass. The quotient is rounded down, so a substep can
  move more than the fraction \<open>F\<close>: for a donor of mass \<open>1\<close> that loses \<open>0.0015\<close> to an
  accretor of mass \<open>2\<close>, with \<open>F = 0.001\<close>, there is one substep, of \<open>0.0015\<close>, and the
  orbit is computed with that one step.
\<close>

theorem substep_exceeds_maximum_fraction:
  "numberIterations test_constants 1 (- (3 / 2000)) = 1
   \<and> dM test_constants 1 (- (3 / 2000)) = - (3 / 2000)
   \<and> MAXIMUM_MASS_TRANSFER_FRACTION_PER_STEP test_constants * 1 < \<bar>dM test_constants 1 (- (3 / 2000))\<bar>
   \<and> fst (CalculateMassTransferOrbit test_constants (test_options False False) (test_ops 1)
            1 (- (3 / 2000)) 0 (test_star0\<lparr>ts_mass := 2\<rparr>) 1
            (test_binary test_star0 (test_star0\<lparr>ts_mass := 2\<rparr>) 1 0))
       = 1 + (- 2 * (- (3 / 2000)) / 1) * (1 - 1 * (1 / 2)) * 1"
proof -
  have F: "MAXIMUM_MASS_TRANSFER_FRACTION_PER_STEP test_constants = 1 / 1000"
    by (simp add: test_constants_def)
  have fl: "\<lfloor>3 / 2 :: real\<rfloor> = 1" by simp
  have n: "numberIterations test_constants 1 (- (3 / 2000)) = 1"
    by (simp add: numberIterations_def F fl)
  have d: "dM test_constants 1 (- (3 / 2000)) = - (3 / 2000)"
    by (simp add: dM_def n)
  have o: "fst (CalculateMassTransferOrbit test_constants (test_options False False) (test_ops 1)
            1 (- (3 / 2000)) 0 (test_star0\<lparr>ts_mass := 2\<rparr>) 1
            (test_binary test_star0 (test_star0\<lparr>ts_mass := 2\<rparr>) 1 0))
       = 1 + (- 2 * (- (3 / 2000)) / 1) * (1 - 1 * (1 / 2)) * 1"
    by (simp add: CalculateMassTransferOrbit_def n d Let_def CalculateGammaAngularMomentumLoss_def
          test_options_def test_ops_def test_star0_def test_binary_def)
  show ?thesis using n d o by (simp add: F)
qed

subsection \<open>The sampling loop\<close>

lemma equilibrate_result:
  "snd (equilibrate S z1 z2 m1 m2 b) = ((m1 + m2) / 2, (m1 + m2) / 2)"
  "m_Eccentricity (fst (equilibrate S z1 z2 m1 m2 b)) = 0"
  "m_SemiMajorAxis (fst (equilibrate S z1 z2 m1 m2 b)) =
     m_SemiMajorAxis b * (16 * (((m1 + m2) / 2) * ((m1 + m2) / 2)) * (((m1 + m2) / 2) * ((m1 + m2) / 2))
        / (((m1 + m2) / 2 + (m1 + m2) / 2) * ((m1 + m2) / 2 + (m1 + m2) / 2)
            * ((m1 + m2) / 2 + (m1 + m2) / 2) * ((m1 + m2) / 2 + (m1 + m2) / 2))
        * (1 - (m_Eccentricity b * m_Eccentricity b)))"
  "m_MassesEquilibratedAtBirth (fst (equilibrate S z1 z2 m1 m2 b))"
  "m_Star1 (fst (equilibrate S z1 z2 m1 m2 b)) =
     BinaryConstituentStar_new S (m_RandomSeed b) ((m1 + m2) / 2) z1 (m_LBVfactor b) (m_WolfRayetFactor b)"
  "m_Star2 (fst (equilibrate S z1 z2 m1 m2 b)) =
     BinaryConstituentStar_new S (m_RandomSeed b) ((m1 + m2) / 2) z2 (m_LBVfactor b) (m_WolfRayetFactor b)"
  "m_RandomSeed (fst (equilibrate S z1 z2 m1 m2 b)) = m_RandomSeed b"
  "m_LBVfactor (fst (equilibrate S z1 z2 m1 m2 b)) = m_LBVfactor b"
  "m_WolfRayetFactor (fst (equilibrate S z1 z2 m1 m2 b)) = m_WolfRayetFactor b"
  by (simp_all add: equilibrate_def Let_def)

lemma sampling_pass_members:
  "m_RandomSeed (fst (sampling_pass K opts S d b)) = m_RandomSeed b"
  "m_LBVfactor (fst (sampling_pass K opts S d b)) = m_LBVfactor b"
  "m_WolfRayetFactor (fst (sampling_pass K opts S d b)) = m_WolfRayetFactor b"
  by (simp_all add: sampling_pass_def Let_def split_def equilibrate_result)

lemma sampling_pass_secondary:
  "loc_secondarySmallerThanMinimumMass (snd (sampling_pass K opts S d b))
     \<longleftrightarrow> Compare K (loc_mass2 (snd (sampling_pass K opts S d b))) (MinimumMassSecondary opts) < 0"
  by (simp add: sampling_pass_def Let_def split_def)

lemma sampling_pass_stars:
  "m_Star1 (fst (sampling_pass K opts S d b)) =
     BinaryConstituentStar_new S (m_RandomSeed b) (loc_mass1 (snd (sampling_pass K opts S d b)))
       (loc_metallicity1 (snd (sampling_pass K opts S d b))) (m_LBVfactor b) (m_WolfRayetFactor b)"
  "m_Star2 (fst (sampling_pass K opts S d b)) =
     BinaryConstituentStar_new S (m_RandomSeed b) (loc_mass2 (snd (sampling_pass K opts S d b)))
       (loc_metallicity2 (snd (sampling_pass K opts S d b))) (m_LBVfactor b) (m_WolfRayetFactor b)"
  by (simp_all add: sampling_pass_def Let_def split_def equilibrate_result)

text \<open>The binary on which a pass tests the overflow: the drawn orbit and the stars just made.\<close>

lemma sampling_pass_rlof:
  "loc_rlof (snd (sampling_pass K opts S d b)) \<longleftrightarrow>
     overflowing K S (d_mass1 d) (d_massRatio d * d_mass1 d)
       (b\<lparr>m_SemiMajorAxis := d_semiMajorAxis d, m_Eccentricity := d_eccentricity d,
          m_Star1 := BinaryConstituentStar_new S (m_RandomSeed b) (d_mass1 d)
                       (min (max (d_metallicity1 d) 0) 1) (m_LBVfactor b) (m_WolfRayetFactor b),
          m_Star2 := BinaryConstituentStar_new S (m_RandomSeed b) (d_massRatio d * d_mass1 d)
                       (min (max (d_metallicity2 d) 0) 1) (m_LBVfactor b) (m_WolfRayetFactor b)\<rparr>)"
  by (simp add: sampling_pass_def Let_def split_def)

lemma sampling_pass_equilibrated:
  assumes "loc_rlof (snd (sampling_pass K opts S d b))" and "AllowRLOFAtBirth opts"
  shows "loc_mass1 (snd (sampling_pass K opts S d b)) = (d_mass1 d + d_massRatio d * d_mass1 d) / 2
    \<and> loc_mass2 (snd (sampling_pass K opts S d b)) = (d_mass1 d + d_massRatio d * d_mass1 d) / 2
    \<and> m_Eccentricity (fst (sampling_pass K opts S d b)) = 0
    \<and> m_SemiMajorAxis (fst (sampling_pass K opts S d b)) = d_semiMajorAxis d
           * (16 * (((d_mass1 d + d_massRatio d * d_mass1 d) / 2) * ((d_mass1 d + d_massRatio d * d_mass1 d) / 2))
                 * (((d_mass1 d + d_massRatio d * d_mass1 d) / 2) * ((d_mass1 d + d_massRatio d * d_mass1 d) / 2))
                / (((d_mass1 d + d_massRatio d * d_mass1 d) / 2 + (d_mass1 d + d_massRatio d * d_mass1 d) / 2)
                    * ((d_mass1 d + d_massRatio d * d_mass1 d) / 2 + (d_mass1 d + d_massRatio d * d_mass1 d) / 2)
                    * ((d_mass1 d + d_massRatio d * d_mass1 d) / 2 + (d_mass1 d + d_massRatio d * d_mass1 d) / 2)
                    * ((d_mass1 d + d_massRatio d * d_mass1 d) / 2 + (d_mass1 d + d_massRatio d * d_mass1 d) / 2))
                * (1 - (d_eccentricity d * d_eccentricity d)))
    \<and> m_MassesEquilibratedAtBirth (fst (sampling_pass K opts S d b))"
  using assms by (simp add: sampling_pass_def Let_def split_def equilibrate_result)


lemma sampling_loop_accepted:
  assumes "sampling_loop K opts S draws i b = Some y"
  shows "\<exists>b0. sampling_pass K opts S (draws (fst y)) b0 = snd y \<and> \<not> rejected opts (snd (snd y))
           \<and> i \<le> fst y \<and> m_RandomSeed b0 = m_RandomSeed b \<and> m_LBVfactor b0 = m_LBVfactor b
           \<and> m_WolfRayetFactor b0 = m_WolfRayetFactor b"
proof (rule sampling_loop.raw_induct[OF _ assms], goal_cases)
  case (1 loop K opts S draws i b y)
  obtain b1 l1 where p: "sampling_pass K opts S (draws i) b = (b1, l1)" by force
  have mem: "m_RandomSeed b1 = m_RandomSeed b" "m_LBVfactor b1 = m_LBVfactor b"
    "m_WolfRayetFactor b1 = m_WolfRayetFactor b"
    using sampling_pass_members[of K opts S "draws i" b] unfolding p by simp_all
  show ?case
  proof (cases "rejected opts l1")
    case True
    with 1(2) p have "loop K opts S draws (Suc i) b1 = Some y" by simp
    from 1(1)[OF this] obtain b0 where
      "sampling_pass K opts S (draws (fst y)) b0 = snd y" "\<not> rejected opts (snd (snd y))"
      "Suc i \<le> fst y" "m_RandomSeed b0 = m_RandomSeed b1" "m_LBVfactor b0 = m_LBVfactor b1"
      "m_WolfRayetFactor b0 = m_WolfRayetFactor b1" by blast
    with mem show ?thesis by (intro exI[of _ b0]) simp
  next
    case False
    with 1(2) p have "y = (i, b1, l1)" by simp
    with p False show ?thesis by (intro exI[of _ b]) simp
  qed
qed




lemma overflowing_eq:
  "overflowing K S m1 m2
     (b\<lparr>m_SemiMajorAxis := a, m_Eccentricity := e, m_Star1 := s1, m_Star2 := s2\<rparr>) \<longleftrightarrow>
   Compare K ((Radius S s1 * RSOL_TO_AU K) / (a * (1 - e) * CalculateRocheLobeRadius_Static m1 m2)) 1 > 0
   \<or> Compare K ((Radius S s2 * RSOL_TO_AU K) / (a * (1 - e) * CalculateRocheLobeRadius_Static m2 m1)) 1 > 0"
  by (simp add: overflowing_def Let_def)

lemma sampling_pass_metallicity:
  "loc_metallicity1 (snd (sampling_pass K opts S d b)) = min (max (d_metallicity1 d) 0) 1"
  "loc_metallicity2 (snd (sampling_pass K opts S d b)) = min (max (d_metallicity2 d) 0) 1"
  by (simp_all add: sampling_pass_def Let_def split_def)

text \<open>
  A pass that the loop accepts, in full, with the draws \<open>m1\<close>, \<open>m2 = q * m1\<close>, \<open>a0\<close>, \<open>e0\<close>
  of that pass. The factor of the new semi-major axis is computed from \<^verbatim>\<open>mass1\<close> and
  \<^verbatim>\<open>mass2\<close> after the mean has been assigned to both, so it is the factor of two equal
  masses, which is \<open>1\<close> unless the mean is \<open>0\<close>.
\<close>

lemma accepted_pass:
  assumes "sampling_loop K opts S draws i b = Some (j, b', l)"
  shows "let d = draws j; m1 = d_mass1 d; m2 = d_massRatio d * d_mass1 d;
             a0 = d_semiMajorAxis d; e0 = d_eccentricity d; m = (m1 + m2) / 2;
             z1 = min (max (d_metallicity1 d) 0) 1; z2 = min (max (d_metallicity2 d) 0) 1;
             new = (\<lambda>mass z. BinaryConstituentStar_new S (m_RandomSeed b) mass z
                                 (m_LBVfactor b) (m_WolfRayetFactor b))
         in (loc_rlof l \<longleftrightarrow>
               Compare K ((Radius S (new m1 z1) * RSOL_TO_AU K)
                           / (a0 * (1 - e0) * CalculateRocheLobeRadius_Static m1 m2)) 1 > 0
               \<or> Compare K ((Radius S (new m2 z2) * RSOL_TO_AU K)
                           / (a0 * (1 - e0) * CalculateRocheLobeRadius_Static m2 m1)) 1 > 0)
          \<and> (\<not> AllowRLOFAtBirth opts \<longrightarrow> \<not> loc_rlof l)
          \<and> (AllowRLOFAtBirth opts \<and> loc_rlof l \<longrightarrow>
                loc_mass1 l = m \<and> loc_mass2 l = m
                \<and> m_Star1 b' = new m z1 \<and> m_Star2 b' = new m z2
                \<and> m_Eccentricity b' = 0
                \<and> m_SemiMajorAxis b' =
                    a0 * (16 * (m * m) * (m * m) / ((m + m) * (m + m) * (m + m) * (m + m))
                           * (1 - e0 * e0))
                \<and> (m \<noteq> 0 \<longrightarrow> m_SemiMajorAxis b' = a0 * (1 - e0 * e0)))"
proof -
  from sampling_loop_accepted[OF assms] obtain b0 where
    p: "sampling_pass K opts S (draws j) b0 = (b', l)" and r: "\<not> rejected opts l"
    and mem: "m_RandomSeed b0 = m_RandomSeed b" "m_LBVfactor b0 = m_LBVfactor b"
      "m_WolfRayetFactor b0 = m_WolfRayetFactor b" by auto
  define d where "d = draws j"
  define m where "m = (d_mass1 d + d_massRatio d * d_mass1 d) / 2"
  have p': "sampling_pass K opts S d b0 = (b', l)" using p by (simp add: d_def)
  have 1: "loc_rlof l \<longleftrightarrow>
      Compare K ((Radius S (BinaryConstituentStar_new S (m_RandomSeed b) (d_mass1 d)
                    (min (max (d_metallicity1 d) 0) 1) (m_LBVfactor b) (m_WolfRayetFactor b)) * RSOL_TO_AU K)
                  / (d_semiMajorAxis d * (1 - d_eccentricity d)
                      * CalculateRocheLobeRadius_Static (d_mass1 d) (d_massRatio d * d_mass1 d))) 1 > 0
      \<or> Compare K ((Radius S (BinaryConstituentStar_new S (m_RandomSeed b) (d_massRatio d * d_mass1 d)
                    (min (max (d_metallicity2 d) 0) 1) (m_LBVfactor b) (m_WolfRayetFactor b)) * RSOL_TO_AU K)
                  / (d_semiMajorAxis d * (1 - d_eccentricity d)
                      * CalculateRocheLobeRadius_Static (d_massRatio d * d_mass1 d) (d_mass1 d))) 1 > 0"
    using sampling_pass_rlof[of K opts S d b0] unfolding p' overflowing_eq mem by simp
  have 2: "\<not> AllowRLOFAtBirth opts \<longrightarrow> \<not> loc_rlof l" using r by (auto simp: rejected_def)
  have z: "loc_metallicity1 l = min (max (d_metallicity1 d) 0) 1"
          "loc_metallicity2 l = min (max (d_metallicity2 d) 0) 1"
    using sampling_pass_metallicity[of K opts S d b0] unfolding p' by simp_all
  have st: "m_Star1 b' = BinaryConstituentStar_new S (m_RandomSeed b) (loc_mass1 l)
              (min (max (d_metallicity1 d) 0) 1) (m_LBVfactor b) (m_WolfRayetFactor b)"
           "m_Star2 b' = BinaryConstituentStar_new S (m_RandomSeed b) (loc_mass2 l)
              (min (max (d_metallicity2 d) 0) 1) (m_LBVfactor b) (m_WolfRayetFactor b)"
    using sampling_pass_stars[of K opts S d b0] unfolding p' mem by (simp_all add: z)
  have 3: "loc_mass1 l = m \<and> loc_mass2 l = m \<and> m_Eccentricity b' = 0
       \<and> m_SemiMajorAxis b' = d_semiMajorAxis d
            * (16 * (m * m) * (m * m) / ((m + m) * (m + m) * (m + m) * (m + m))
                * (1 - d_eccentricity d * d_eccentricity d))"
    if "AllowRLOFAtBirth opts" "loc_rlof l"
    using sampling_pass_equilibrated[of K opts S d b0] that unfolding p' m_def by simp
  have 4: "16 * (m * m) * (m * m) / ((m + m) * (m + m) * (m + m) * (m + m)) = 1" if "m \<noteq> 0"
    using that by (simp add: field_simps)
  show ?thesis
    unfolding Let_def d_def[symmetric] m_def[symmetric]
    using 1 2 3 4 st by auto
qed

text \<open>
  C4. For a binary that the sampling loop accepts in pass \<open>j\<close>, with the draws \<open>m1\<close>,
  \<open>m2 = q * m1\<close>, \<open>a0\<close>, \<open>e0\<close> of that pass: \<open>rlof\<close> says that one of the two stars made from
  the draws overflows its Roche lobe at periastron; if overflow at birth is not allowed,
  the accepted pass did not overflow; if it is allowed and the pass overflowed, both
  masses are the mean \<open>m = (m1 + m2) / 2\<close> of the masses drawn, the stars are made again
  with that mass, and the eccentricity is \<open>0\<close>.
\<close>

theorem accepted_overflow_equilibrated:
  assumes "sampling_loop K opts S draws i b = Some (j, b', l)"
  shows "let d = draws j; m1 = d_mass1 d; m2 = d_massRatio d * d_mass1 d;
             a0 = d_semiMajorAxis d; e0 = d_eccentricity d; m = (m1 + m2) / 2;
             z1 = min (max (d_metallicity1 d) 0) 1; z2 = min (max (d_metallicity2 d) 0) 1;
             new = (\<lambda>mass z. BinaryConstituentStar_new S (m_RandomSeed b) mass z
                                 (m_LBVfactor b) (m_WolfRayetFactor b))
         in (loc_rlof l \<longleftrightarrow>
               Compare K ((Radius S (new m1 z1) * RSOL_TO_AU K)
                           / (a0 * (1 - e0) * CalculateRocheLobeRadius_Static m1 m2)) 1 > 0
               \<or> Compare K ((Radius S (new m2 z2) * RSOL_TO_AU K)
                           / (a0 * (1 - e0) * CalculateRocheLobeRadius_Static m2 m1)) 1 > 0)
          \<and> (\<not> AllowRLOFAtBirth opts \<longrightarrow> \<not> loc_rlof l)
          \<and> (AllowRLOFAtBirth opts \<and> loc_rlof l \<longrightarrow>
                loc_mass1 l = m \<and> loc_mass2 l = m
                \<and> m_Star1 b' = new m z1 \<and> m_Star2 b' = new m z2
                \<and> m_Eccentricity b' = 0)"
  using accepted_pass[OF assms] unfolding Let_def by blast

lemma overflowing_exact_I:
  assumes "\<not> COMPARE_WITH_TOLERANCE K" "Radius S s1 = r1" "RSOL_TO_AU K = k"
    and "0 < a * (1 - e) * CalculateRocheLobeRadius_Static m1 m2"
    and "a * (1 - e) * CalculateRocheLobeRadius_Static m1 m2 < r1 * k"
  shows "overflowing K S m1 m2
           (b\<lparr>m_SemiMajorAxis := a, m_Eccentricity := e, m_Star1 := s1, m_Star2 := s2\<rparr>)"
proof -
  have "1 < (r1 * k) / (a * (1 - e) * CalculateRocheLobeRadius_Static m1 m2)"
    using assms(4,5) by (simp only: less_divide_eq_1_pos)
  then show ?thesis
    unfolding overflowing_eq assms(2,3) using assms(1) by (simp add: Compare_exact_gt)
qed

lemma test_pass_overflows:
  assumes "0 \<le> e" "e < 1"
  shows "loc_rlof (snd (sampling_pass test_constants (test_options ar ms) (test_ops 3000)
                          (test_draw 10 (4 / 5) 10 e) (test_binary test_star0 test_star0 1 0)))"
proof -
  have rl: "0 < CalculateRocheLobeRadius_Static 10 8" "CalculateRocheLobeRadius_Static 10 8 < 1"
    by (rule RL_pos_lt_1; simp)+
  have e: "0 < 1 - e" "1 - e \<le> 1" using assms by simp_all
  define x where "x = (1 - e) * CalculateRocheLobeRadius_Static 10 8"
  have "(1 - e) * CalculateRocheLobeRadius_Static 10 8 < 1 * 1"
    using rl e by (intro mult_le_less_imp_less) simp_all
  then have "x < 1" by (simp add: x_def)
  then have "10 * x < 3000 * (1 / 215)" by simp
  then have lt: "10 * (1 - e) * CalculateRocheLobeRadius_Static 10 8 < 3000 * (1 / 215)"
    unfolding x_def mult.assoc .
  have "0 < x" using rl e by (simp add: x_def)
  then have "0 < 10 * x" by simp
  then have pos: "0 < 10 * (1 - e) * CalculateRocheLobeRadius_Static 10 8"
    unfolding x_def mult.assoc .
  have ov: "overflowing test_constants (test_ops 3000) 10 8
           (b\<lparr>m_SemiMajorAxis := 10, m_Eccentricity := e, m_Star1 := s1, m_Star2 := s2\<rparr>)"
    if "ts_radius s1 = 3000" for s1 s2 :: test_star and b
  proof -
    have nt: "\<not> COMPARE_WITH_TOLERANCE test_constants" by (simp add: test_constants_sel)
    have rad: "Radius (test_ops 3000) s1 = 3000" using that by (simp add: test_ops_sel)
    have k: "RSOL_TO_AU test_constants = 1 / 215" by (simp add: test_constants_sel)
    show ?thesis by (rule overflowing_exact_I[OF nt rad k pos lt])
  qed
  show ?thesis
    unfolding sampling_pass_rlof
    by (simp add: test_draw_def test_ops_sel ov)
qed

lemma test_pass_overflow_accepted:
  assumes "0 \<le> e" "e < 1"
  shows "sampling_loop test_constants (test_options True ms) (test_ops 3000)
           (\<lambda>i. test_draw 10 (4 / 5) 10 e) 0 (test_binary test_star0 test_star0 1 0)
         = Some (0, sampling_pass test_constants (test_options True ms) (test_ops 3000)
                      (test_draw 10 (4 / 5) 10 e) (test_binary test_star0 test_star0 1 0))"
proof -
  let ?P = "sampling_pass test_constants (test_options True ms) (test_ops 3000)
              (test_draw 10 (4 / 5) 10 e) (test_binary test_star0 test_star0 1 0)"
  have ov: "loc_rlof (snd ?P)" using assms by (rule test_pass_overflows)
  have "loc_mass2 (snd ?P) = 9"
    using sampling_pass_equilibrated[OF ov] by (simp add: test_options_sel test_draw_def)
  then have "\<not> loc_secondarySmallerThanMinimumMass (snd ?P)"
    unfolding sampling_pass_secondary by (simp add: Compare_test_constants test_options_sel)
  moreover have "\<not> loc_initialParametersOutsideParameterSpace (snd ?P)"
    by (simp add: sampling_pass_def Let_def split_def test_options_sel)
  ultimately have "\<not> rejected (test_options True ms) (snd ?P)"
    by (simp add: rejected_def test_options_sel)
  then show ?thesis by (subst sampling_loop.simps) (simp add: split_def)
qed

theorem accepted_overflow_equilibrated_witness:
  "sampling_loop test_constants (test_options True False) (test_ops 3000)
       (\<lambda>i. test_draw 10 (4 / 5) 10 (1 / 2)) 0 (test_binary test_star0 test_star0 1 0)
     = Some (0, sampling_pass test_constants (test_options True False) (test_ops 3000)
                  (test_draw 10 (4 / 5) 10 (1 / 2)) (test_binary test_star0 test_star0 1 0))
   \<and> AllowRLOFAtBirth (test_options True False)
   \<and> loc_rlof (snd (sampling_pass test_constants (test_options True False) (test_ops 3000)
                  (test_draw 10 (4 / 5) 10 (1 / 2)) (test_binary test_star0 test_star0 1 0)))
   \<and> loc_mass1 (snd (sampling_pass test_constants (test_options True False) (test_ops 3000)
                  (test_draw 10 (4 / 5) 10 (1 / 2)) (test_binary test_star0 test_star0 1 0))) = 9
   \<and> loc_mass2 (snd (sampling_pass test_constants (test_options True False) (test_ops 3000)
                  (test_draw 10 (4 / 5) 10 (1 / 2)) (test_binary test_star0 test_star0 1 0))) = 9
   \<and> m_Eccentricity (fst (sampling_pass test_constants (test_options True False) (test_ops 3000)
                  (test_draw 10 (4 / 5) 10 (1 / 2)) (test_binary test_star0 test_star0 1 0))) = 0"
proof -
  let ?P = "sampling_pass test_constants (test_options True False) (test_ops 3000)
              (test_draw 10 (4 / 5) 10 (1 / 2)) (test_binary test_star0 test_star0 1 0)"
  have l: "sampling_loop test_constants (test_options True False) (test_ops 3000)
       (\<lambda>i. test_draw 10 (4 / 5) 10 (1 / 2)) 0 (test_binary test_star0 test_star0 1 0)
     = Some (0, fst ?P, snd ?P)"
    using test_pass_overflow_accepted[of "1 / 2" False] by simp
  have ov: "loc_rlof (snd ?P)" by (rule test_pass_overflows) simp_all
  have al: "AllowRLOFAtBirth (test_options True False)" by (simp add: test_options_sel)
  from accepted_overflow_equilibrated[OF l] ov al l show ?thesis
    by (simp add: Let_def test_draw_def)
qed

text \<open>
  With the draws \<open>m1 = 10\<close>, \<open>q = 4/5\<close>, \<open>a0 = 10\<close>, \<open>e0 = 0\<close> and stars of radius \<open>3000\<close>
  the accepted axis is \<open>10\<close>, which is not the value of the formula with the masses
  \<open>10\<close> and \<open>8\<close> as drawn (with the product of the masses or with its square).
\<close>

theorem accepted_overflow_axis_counterexample:
  "sampling_loop test_constants (test_options True False) (test_ops 3000)
       (\<lambda>i. test_draw 10 (4 / 5) 10 0) 0 (test_binary test_star0 test_star0 1 0)
     = Some (0, sampling_pass test_constants (test_options True False) (test_ops 3000)
                  (test_draw 10 (4 / 5) 10 0) (test_binary test_star0 test_star0 1 0))
   \<and> AllowRLOFAtBirth (test_options True False)
   \<and> loc_rlof (snd (sampling_pass test_constants (test_options True False) (test_ops 3000)
                  (test_draw 10 (4 / 5) 10 0) (test_binary test_star0 test_star0 1 0)))
   \<and> m_SemiMajorAxis (fst (sampling_pass test_constants (test_options True False) (test_ops 3000)
                  (test_draw 10 (4 / 5) 10 0) (test_binary test_star0 test_star0 1 0))) = 10
   \<and> (10 :: real) \<noteq> 10 * (16 * 10 * 8 / (10 + 8) ^ 4) * (1 - 0\<^sup>2)
   \<and> (10 :: real) \<noteq> 10 * (16 * (10 * 8) * (10 * 8) / (10 + 8) ^ 4) * (1 - 0\<^sup>2)"
proof -
  let ?P = "sampling_pass test_constants (test_options True False) (test_ops 3000)
              (test_draw 10 (4 / 5) 10 0) (test_binary test_star0 test_star0 1 0)"
  have l: "sampling_loop test_constants (test_options True False) (test_ops 3000)
       (\<lambda>i. test_draw 10 (4 / 5) 10 0) 0 (test_binary test_star0 test_star0 1 0)
     = Some (0, ?P)"
    using test_pass_overflow_accepted[of 0 False] by simp
  have ov: "loc_rlof (snd ?P)" by (rule test_pass_overflows) simp_all
  have al: "AllowRLOFAtBirth (test_options True False)" by (simp add: test_options_sel)
  have a: "m_SemiMajorAxis (fst ?P) = 10"
    using sampling_pass_equilibrated[OF ov al] by (simp add: test_draw_def)
  from l ov al a show ?thesis by simp
qed

subsection \<open>Common envelope\<close>

lemma masses_fields:
  "m_Mass1Final (snd (ResolveCommonEnvelopeEvent_masses K opts S b)) =
     (if AllowMainSequenceStarToSurviveCommonEnvelope opts
         \<and> IsOneOf (StellarType S (m_Star1 b)) (ALL_MAIN_SEQUENCE K)
      then Mass S (m_Star1 b) else CoreMass S (m_Star1 b))"
  "m_Mass2Final (snd (ResolveCommonEnvelopeEvent_masses K opts S b)) =
     (if AllowMainSequenceStarToSurviveCommonEnvelope opts
         \<and> IsOneOf (StellarType S (m_Star2 b)) (ALL_MAIN_SEQUENCE K)
      then Mass S (m_Star2 b) else CoreMass S (m_Star2 b))"
  "m_MassEnv1 (snd (ResolveCommonEnvelopeEvent_masses K opts S b)) =
     (if AllowMainSequenceStarToSurviveCommonEnvelope opts
         \<and> IsOneOf (StellarType S (m_Star1 b)) (ALL_MAIN_SEQUENCE K)
      then 0 else Mass S (m_Star1 b) - CoreMass S (m_Star1 b))"
  "m_MassEnv2 (snd (ResolveCommonEnvelopeEvent_masses K opts S b)) =
     (if AllowMainSequenceStarToSurviveCommonEnvelope opts
         \<and> IsOneOf (StellarType S (m_Star2 b)) (ALL_MAIN_SEQUENCE K)
      then 0 else Mass S (m_Star2 b) - CoreMass S (m_Star2 b))"
  "fst (ResolveCommonEnvelopeEvent_masses K opts S b) =
     (AllowMainSequenceStarToSurviveCommonEnvelope opts
      \<and> ((IsOneOf (StellarType S (m_Star1 b)) (ALL_MAIN_SEQUENCE K) \<and> IsRLOF S (m_Star1 b))
         \<or> (IsOneOf (StellarType S (m_Star2 b)) (ALL_MAIN_SEQUENCE K) \<and> IsRLOF S (m_Star2 b))))"
  "m_Star1 (snd (ResolveCommonEnvelopeEvent_masses K opts S b)) = m_Star1 b"
  "m_Star2 (snd (ResolveCommonEnvelopeEvent_masses K opts S b)) = m_Star2 b"
  "m_StellarMerger (snd (ResolveCommonEnvelopeEvent_masses K opts S b)) = m_StellarMerger b"
  by (simp_all add: ResolveCommonEnvelopeEvent_masses_def Let_def split_def)

lemma counts_fields:
  "m_Mass1Final (ResolveCommonEnvelopeEvent_counts S f1 f2 b) = m_Mass1Final b"
  "m_Mass2Final (ResolveCommonEnvelopeEvent_counts S f1 f2 b) = m_Mass2Final b"
  "m_MassEnv1 (ResolveCommonEnvelopeEvent_counts S f1 f2 b) = m_MassEnv1 b"
  "m_MassEnv2 (ResolveCommonEnvelopeEvent_counts S f1 f2 b) = m_MassEnv2 b"
  "m_Star1 (ResolveCommonEnvelopeEvent_counts S f1 f2 b) = m_Star1 b"
  "m_Star2 (ResolveCommonEnvelopeEvent_counts S f1 f2 b) = m_Star2 b"
  "m_StellarMerger (ResolveCommonEnvelopeEvent_counts S f1 f2 b) = m_StellarMerger b"
  "doubleCoreCE (m_CEDetails (ResolveCommonEnvelopeEvent_counts S f1 f2 b)) = (f1 \<and> f2)"
  by (simp_all add: ResolveCommonEnvelopeEvent_counts_def Let_def)

lemma energies_fields:
  "m_Mass1Final (ResolveCommonEnvelopeEvent_energies S b) = m_Mass1Final b"
  "m_Mass2Final (ResolveCommonEnvelopeEvent_energies S b) = m_Mass2Final b"
  "m_MassEnv1 (ResolveCommonEnvelopeEvent_energies S b) = m_MassEnv1 b"
  "m_MassEnv2 (ResolveCommonEnvelopeEvent_energies S b) = m_MassEnv2 b"
  "m_StellarMerger (ResolveCommonEnvelopeEvent_energies S b) = m_StellarMerger b"
  "doubleCoreCE (m_CEDetails (ResolveCommonEnvelopeEvent_energies S b)) = doubleCoreCE (m_CEDetails b)"
  "m_Star1 (ResolveCommonEnvelopeEvent_energies S b) =
     CalculateCommonEnvelopeValues S
       (CalculateBindingEnergies S (m_Mass1Final b) (m_MassEnv1 b)
          (Radius S (CalculateLambdas S (m_MassEnv1 b) (m_Star1 b)))
          (CalculateLambdas S (m_MassEnv1 b) (m_Star1 b)))"
  "m_Star2 (ResolveCommonEnvelopeEvent_energies S b) =
     CalculateCommonEnvelopeValues S
       (CalculateBindingEnergies S (m_Mass2Final b) (m_MassEnv2 b)
          (Radius S (CalculateLambdas S (m_MassEnv2 b) (m_Star2 b)))
          (CalculateLambdas S (m_MassEnv2 b) (m_Star2 b)))"
  by (simp_all add: ResolveCommonEnvelopeEvent_energies_def Let_def)

lemma setup_fields:
  "m_Mass1Final (snd (ResolveCommonEnvelopeEvent_setup K opts S X b)) =
     m_Mass1Final (snd (ResolveCommonEnvelopeEvent_masses K opts S b))"
  "m_Mass2Final (snd (ResolveCommonEnvelopeEvent_setup K opts S X b)) =
     m_Mass2Final (snd (ResolveCommonEnvelopeEvent_masses K opts S b))"
  "m_MassEnv1 (snd (ResolveCommonEnvelopeEvent_setup K opts S X b)) =
     m_MassEnv1 (snd (ResolveCommonEnvelopeEvent_masses K opts S b))"
  "m_MassEnv2 (snd (ResolveCommonEnvelopeEvent_setup K opts S X b)) =
     m_MassEnv2 (snd (ResolveCommonEnvelopeEvent_masses K opts S b))"
  "m_StellarMerger (snd (ResolveCommonEnvelopeEvent_setup K opts S X b)) = m_StellarMerger b"
  by (simp_all add: ResolveCommonEnvelopeEvent_setup_def Let_def split_def SetPreCEEValues_def
        masses_fields(8) counts_fields energies_fields)

lemma setup_flags:
  "donorMS (fst (ResolveCommonEnvelopeEvent_setup K opts S X b)) =
     fst (ResolveCommonEnvelopeEvent_masses K opts S b)"
  "envelopeFlag1 (fst (ResolveCommonEnvelopeEvent_setup K opts S X b)) =
     (Compare K (m_MassEnv1 (snd (ResolveCommonEnvelopeEvent_masses K opts S b))) 0 > 0
      \<and> Compare K (m_Mass1Final (snd (ResolveCommonEnvelopeEvent_masses K opts S b))) 0 > 0)"
  "envelopeFlag2 (fst (ResolveCommonEnvelopeEvent_setup K opts S X b)) =
     (Compare K (m_MassEnv2 (snd (ResolveCommonEnvelopeEvent_masses K opts S b))) 0 > 0
      \<and> Compare K (m_Mass2Final (snd (ResolveCommonEnvelopeEvent_masses K opts S b))) 0 > 0)"
  "periastronRsol (fst (ResolveCommonEnvelopeEvent_setup K opts S X b)) = PeriastronRsol X b"
  "alphaCE (fst (ResolveCommonEnvelopeEvent_setup K opts S X b)) = alpha (m_CEDetails b)"
  by (simp_all add: ResolveCommonEnvelopeEvent_setup_def Let_def split_def)

lemma setup_stars:
  "m_Star1 (snd (ResolveCommonEnvelopeEvent_setup K opts S X b)) =
     Star_SetPreCEEValues S (m_Star1 (ResolveCommonEnvelopeEvent_energies S
       (snd (ResolveCommonEnvelopeEvent_masses K opts S b))))"
  "m_Star2 (snd (ResolveCommonEnvelopeEvent_setup K opts S X b)) =
     Star_SetPreCEEValues S (m_Star2 (ResolveCommonEnvelopeEvent_energies S
       (snd (ResolveCommonEnvelopeEvent_masses K opts S b))))"
  by (simp_all add: ResolveCommonEnvelopeEvent_setup_def Let_def split_def SetPreCEEValues_def
        ResolveCommonEnvelopeEvent_energies_def ResolveCommonEnvelopeEvent_counts_def)
lemma strip_fields:
  "m_SemiMajorAxis (ResolveCommonEnvelopeEvent_strip S L b) = m_SemiMajorAxis b"
  "m_Eccentricity (ResolveCommonEnvelopeEvent_strip S L b) = m_Eccentricity b"
  "m_StellarMerger (ResolveCommonEnvelopeEvent_strip S L b) = m_StellarMerger b"
  "m_Mass1Final (ResolveCommonEnvelopeEvent_strip S L b) = m_Mass1Final b"
  "m_Mass2Final (ResolveCommonEnvelopeEvent_strip S L b) = m_Mass2Final b"
  "m_Star1 (ResolveCommonEnvelopeEvent_strip S L b) =
     UpdateAttributes S 0 0 True
       (if envelopeFlag1 L then ResolveEnvelopeLossAndSwitch S (m_Star1 b) else m_Star1 b)"
  "m_Star2 (ResolveCommonEnvelopeEvent_strip S L b) =
     UpdateAttributes S 0 0 True
       (if envelopeFlag2 L then ResolveEnvelopeLossAndSwitch S (m_Star2 b) else m_Star2 b)"
  by (simp_all add: ResolveCommonEnvelopeEvent_strip_def Let_def)

lemma envelopes_fields:
  "m_SemiMajorAxis (ResolveCommonEnvelopeEvent_envelopes K S L b) = aFinal K S L b"
  "m_Eccentricity (ResolveCommonEnvelopeEvent_envelopes K S L b) = 0"
  "m_Mass1Final (ResolveCommonEnvelopeEvent_envelopes K S L b) = m_Mass1Final b"
  "m_Mass2Final (ResolveCommonEnvelopeEvent_envelopes K S L b) = m_Mass2Final b"
  "m_StellarMerger (ResolveCommonEnvelopeEvent_envelopes K S L b) \<longleftrightarrow>
     donorMS L \<or> (\<not> envelopeFlag1 L \<and> \<not> envelopeFlag2 L) \<or> m_StellarMerger b"
  by (auto simp add: ResolveCommonEnvelopeEvent_envelopes_def Let_def strip_fields)


lemma SetPostCEEValues_fields:
  "m_SemiMajorAxis (SetPostCEEValues K S a e r1 r2 b) = m_SemiMajorAxis b"
  "m_Eccentricity (SetPostCEEValues K S a e r1 r2 b) = m_Eccentricity b"
  "m_StellarMerger (SetPostCEEValues K S a e r1 r2 b) = m_StellarMerger b"
  "m_Mass1Final (SetPostCEEValues K S a e r1 r2 b) = m_Mass1Final b"
  "m_Mass2Final (SetPostCEEValues K S a e r1 r2 b) = m_Mass2Final b"
  "m_Star1 (SetPostCEEValues K S a e r1 r2 b) = m_Star1 b"
  "m_Star2 (SetPostCEEValues K S a e r1 r2 b) = m_Star2 b"
  "cee_semiMajorAxis (postCEE (m_CEDetails (SetPostCEEValues K S a e r1 r2 b))) = a"
  "cee_eccentricity (postCEE (m_CEDetails (SetPostCEEValues K S a e r1 r2 b))) = e"
  by (simp_all add: SetPostCEEValues_def Let_def)

lemma emit_fields:
  "m_SemiMajorAxis (emit ev b) = m_SemiMajorAxis b"
  "m_Eccentricity (emit ev b) = m_Eccentricity b"
  "m_StellarMerger (emit ev b) = m_StellarMerger b"
  "m_Mass1Final (emit ev b) = m_Mass1Final b"
  "m_Mass2Final (emit ev b) = m_Mass2Final b"
  "m_Star1 (emit ev b) = m_Star1 b"
  "m_Star2 (emit ev b) = m_Star2 b"
  "m_CEDetails (emit ev b) = m_CEDetails b"
  by (simp_all add: emit_def)

lemma CE_orbit:
  "m_SemiMajorAxis (ResolveCommonEnvelopeEvent K opts S X b) =
     aFinal K S (fst (ResolveCommonEnvelopeEvent_setup K opts S X b))
       (snd (ResolveCommonEnvelopeEvent_setup K opts S X b))"
  "m_Eccentricity (ResolveCommonEnvelopeEvent K opts S X b) = 0"
  "cee_semiMajorAxis (postCEE (m_CEDetails (ResolveCommonEnvelopeEvent K opts S X b))) =
     aFinalRsol K S (fst (ResolveCommonEnvelopeEvent_setup K opts S X b))
       (snd (ResolveCommonEnvelopeEvent_setup K opts S X b))"
  "cee_eccentricity (postCEE (m_CEDetails (ResolveCommonEnvelopeEvent K opts S X b))) = 0"
  "m_Mass1Final (ResolveCommonEnvelopeEvent K opts S X b) =
     m_Mass1Final (snd (ResolveCommonEnvelopeEvent_setup K opts S X b))"
  "m_Mass2Final (ResolveCommonEnvelopeEvent K opts S X b) =
     m_Mass2Final (snd (ResolveCommonEnvelopeEvent_setup K opts S X b))"
  by (simp_all add: ResolveCommonEnvelopeEvent_def Let_def split_def emit_fields
        SetPostCEEValues_fields envelopes_fields)




lemma setup_lambdas:
  "lambda1 (fst (ResolveCommonEnvelopeEvent_setup K opts S X b)) =
     LambdaAtCEE S (m_Star1 (ResolveCommonEnvelopeEvent_energies S
       (snd (ResolveCommonEnvelopeEvent_masses K opts S b))))"
  "lambda2 (fst (ResolveCommonEnvelopeEvent_setup K opts S X b)) =
     LambdaAtCEE S (m_Star2 (ResolveCommonEnvelopeEvent_energies S
       (snd (ResolveCommonEnvelopeEvent_masses K opts S b))))"
  by (simp_all add: ResolveCommonEnvelopeEvent_setup_def Let_def split_def
        ResolveCommonEnvelopeEvent_energies_def ResolveCommonEnvelopeEvent_counts_def)

lemma test_binary_sel:
  "m_Star1 (test_binary s1 s2 a e) = s1" "m_Star2 (test_binary s1 s2 a e) = s2"
  "m_SemiMajorAxis (test_binary s1 s2 a e) = a" "m_Eccentricity (test_binary s1 s2 a e) = e"
  "m_StellarMerger (test_binary s1 s2 a e) = False"
  "alpha (m_CEDetails (test_binary s1 s2 a e)) = 1"
  "m_Supernova (test_binary s1 s2 a e) = STAR1" "m_Companion (test_binary s1 s2 a e) = STAR2"
  "trace (test_binary s1 s2 a e) = []"
  by (simp_all add: test_binary_def)

lemma test_externals_sel:
  "Eccentricity test_externals b = m_Eccentricity b"
  "SemiMajorAxisRsol test_externals b = m_SemiMajorAxis b * 215"
  "PeriastronRsol test_externals b = m_SemiMajorAxis b * (1 - m_Eccentricity b) * 215"
  "OrbitalAngularVelocity test_externals b = 0"
  by (simp_all add: test_externals_def)

lemma test_giant_sel:
  "ts_mass test_giant = 10" "ts_coreMass test_giant = 9" "ts_radius test_giant = 100"
  "ts_type test_giant = FIRST_GIANT_BRANCH" "ts_rlof test_giant = True" "ts_lambda test_giant = 100"
  "ts_mass test_star0 = 1" "ts_coreMass test_star0 = 0" "ts_radius test_star0 = 1"
  "ts_type test_star0 = MS_GT_07" "ts_rlof test_star0 = False" "ts_lambda test_star0 = 1"
  by (simp_all add: test_giant_def test_star0_def)


lemma test_energies:
  "ResolveCommonEnvelopeEvent_energies (test_ops r) b = b"
  by (simp add: ResolveCommonEnvelopeEvent_energies_def Let_def test_ops_sel)

lemma test_setup:
  "m_Star1 (snd (ResolveCommonEnvelopeEvent_setup test_constants (test_options False True)
      (test_ops 1) test_externals (test_binary test_giant (test_star0\<lparr>ts_rlof := r\<rparr>) 1 0))) = test_giant"
  "m_Star2 (snd (ResolveCommonEnvelopeEvent_setup test_constants (test_options False True)
      (test_ops 1) test_externals (test_binary test_giant (test_star0\<lparr>ts_rlof := r\<rparr>) 1 0)))
     = test_star0\<lparr>ts_rlof := r\<rparr>"
  "m_Mass1Final (snd (ResolveCommonEnvelopeEvent_setup test_constants (test_options False True)
      (test_ops 1) test_externals (test_binary test_giant (test_star0\<lparr>ts_rlof := r\<rparr>) 1 0))) = 9"
  "m_Mass2Final (snd (ResolveCommonEnvelopeEvent_setup test_constants (test_options False True)
      (test_ops 1) test_externals (test_binary test_giant (test_star0\<lparr>ts_rlof := r\<rparr>) 1 0))) = 1"
  "m_MassEnv1 (snd (ResolveCommonEnvelopeEvent_setup test_constants (test_options False True)
      (test_ops 1) test_externals (test_binary test_giant (test_star0\<lparr>ts_rlof := r\<rparr>) 1 0))) = 1"
  "m_MassEnv2 (snd (ResolveCommonEnvelopeEvent_setup test_constants (test_options False True)
      (test_ops 1) test_externals (test_binary test_giant (test_star0\<lparr>ts_rlof := r\<rparr>) 1 0))) = 0"
  "donorMS (fst (ResolveCommonEnvelopeEvent_setup test_constants (test_options False True)
      (test_ops 1) test_externals (test_binary test_giant (test_star0\<lparr>ts_rlof := r\<rparr>) 1 0))) = r"
  "envelopeFlag1 (fst (ResolveCommonEnvelopeEvent_setup test_constants (test_options False True)
      (test_ops 1) test_externals (test_binary test_giant (test_star0\<lparr>ts_rlof := r\<rparr>) 1 0))) = True"
  "envelopeFlag2 (fst (ResolveCommonEnvelopeEvent_setup test_constants (test_options False True)
      (test_ops 1) test_externals (test_binary test_giant (test_star0\<lparr>ts_rlof := r\<rparr>) 1 0))) = False"
  "lambda1 (fst (ResolveCommonEnvelopeEvent_setup test_constants (test_options False True)
      (test_ops 1) test_externals (test_binary test_giant (test_star0\<lparr>ts_rlof := r\<rparr>) 1 0))) = 100"
  "lambda2 (fst (ResolveCommonEnvelopeEvent_setup test_constants (test_options False True)
      (test_ops 1) test_externals (test_binary test_giant (test_star0\<lparr>ts_rlof := r\<rparr>) 1 0))) = 1"
  "alphaCE (fst (ResolveCommonEnvelopeEvent_setup test_constants (test_options False True)
      (test_ops 1) test_externals (test_binary test_giant (test_star0\<lparr>ts_rlof := r\<rparr>) 1 0))) = 1"
  "periastronRsol (fst (ResolveCommonEnvelopeEvent_setup test_constants (test_options False True)
      (test_ops 1) test_externals (test_binary test_giant (test_star0\<lparr>ts_rlof := r\<rparr>) 1 0))) = 215"
  by (simp_all add: setup_stars setup_fields setup_flags setup_lambdas masses_fields test_energies
        test_ops_sel test_options_sel test_constants_sel test_binary_sel test_externals_sel
        test_giant_sel Compare_test_constants)



text \<open>
  C2. After a common-envelope event the new separation, in solar radii as the record of
  the values after the event holds it, is \<open>m1_final * m2_final / (k1 + k2 + k3)\<close>, and the
  semi-major axis of the binary is that value in AU. \<open>k1\<close> and \<open>k2\<close> are the terms of the
  binding energy of the envelopes, \<open>2 / (\<lambda> \<alpha>) * m * m_env / R\<close>, and are \<open>0\<close> for a star that is
  a compact object; \<open>k3 = m1 * m2 / periastron\<close>, with the periastron before the event. The
  masses, envelopes and radii are those of the stars when the first part of the function
  ends. The eccentricity of the binary, and the one recorded, are \<open>0\<close>.
\<close>

theorem CommonEnvelope_new_separation:
  "let Lb = ResolveCommonEnvelopeEvent_setup K opts S X b;
       L = fst Lb; b0 = snd Lb;
       m1 = Mass S (m_Star1 b0); m2 = Mass S (m_Star2 b0);
       k1 = (if IsOneOf (StellarType S (m_Star1 b0)) (COMPACT_OBJECTS K) then 0
             else (2 / (lambda1 L * alphaCE L)) * m1 * m_MassEnv1 b0 / Radius S (m_Star1 b0));
       k2 = (if IsOneOf (StellarType S (m_Star2 b0)) (COMPACT_OBJECTS K) then 0
             else (2 / (lambda2 L * alphaCE L)) * m2 * m_MassEnv2 b0 / Radius S (m_Star2 b0));
       k3 = m1 * m2 / PeriastronRsol X b;
       b' = ResolveCommonEnvelopeEvent K opts S X b
   in cee_semiMajorAxis (postCEE (m_CEDetails b')) = (m_Mass1Final b' * m_Mass2Final b') / (k1 + k2 + k3)
      \<and> m_SemiMajorAxis b' = (m_Mass1Final b' * m_Mass2Final b') / (k1 + k2 + k3) * RSOL_TO_AU K
      \<and> m_Eccentricity b' = 0
      \<and> cee_eccentricity (postCEE (m_CEDetails b')) = 0"
  unfolding Let_def CE_orbit
  by (simp add: aFinal_def aFinalRsol_def k1_def k2_def k3_def k4_def setup_flags)

theorem CommonEnvelope_new_separation_witness:
  "m_SemiMajorAxis (ResolveCommonEnvelopeEvent test_constants (test_options False True)
      (test_ops 1) test_externals (test_binary test_giant test_star0 1 0))
     = (9 * 1) / (2 / (100 * 1) * 10 * 1 / 100 + 0 + 10 * 1 / 215) * (1 / 215)
   \<and> m_Eccentricity (ResolveCommonEnvelopeEvent test_constants (test_options False True)
      (test_ops 1) test_externals (test_binary test_giant test_star0 1 0)) = 0"
proof -
  have s: "test_star0\<lparr>ts_rlof := False\<rparr> = test_star0" by (simp add: test_star0_def)
  show ?thesis
    using CommonEnvelope_new_separation[of test_constants "test_options False True" "test_ops 1"
        test_externals "test_binary test_giant test_star0 1 0"]
      test_setup[of False]
    unfolding s Let_def CE_orbit(5,6)
    by (simp add: test_ops_sel test_constants_sel test_giant_sel test_externals_sel test_binary_sel)
qed














subsection \<open>Supernova\<close>

lemma star_upd_fields:
  "m_Unbound (star_upd r f b) = m_Unbound b"
  "m_ThetaE (star_upd r f b) = m_ThetaE b"
  "m_Supernova (star_upd r f b) = m_Supernova b"
  "m_Companion (star_upd r f b) = m_Companion b"
  by (simp_all add: star_upd_def split: star_ref.splits)

lemma Random_fields:
  "m_Unbound (snd (Random X b)) = m_Unbound b"
  "m_ThetaE (snd (Random X b)) = m_ThetaE b"
  by (simp_all add: Random_def)

lemma UpdateSystemicVelocity_fields:
  "m_Unbound (UpdateSystemicVelocity v b) = m_Unbound b"
  by (simp_all add: UpdateSystemicVelocity_def Let_def)

lemma now_unbound_flag: "m_Unbound (ResolveSupernova_now_unbound K S X L b)"
  by (simp add: ResolveSupernova_now_unbound_def Let_def split_def star_upd_fields Random_fields)

lemma still_bound_flag: "m_Unbound (ResolveSupernova_still_bound K S X L b) = m_Unbound b"
  by (simp add: ResolveSupernova_still_bound_def Let_def split_def star_upd_fields Random_fields)

text \<open>
  In the branch for a binary that is intact before the supernova, the flag \<open>m_Unbound\<close> is
  set after the branch exactly if it was set before it or the comparison of the new
  eccentricity with \<open>1\<close> is not ``less''; nothing in the branch clears it.
\<close>

lemma ResolveSupernova_intact_unbound_flag:
  "m_Unbound (ResolveSupernova_intact K S X theta b) \<longleftrightarrow>
     m_Unbound b
     \<or> Compare K (sn_e_post (SN_orbit K S X theta
            (MassPrev S (star_of b (m_Supernova b))) (MassPrev S (star_of b (m_Companion b)))
            (star_upd (m_Supernova b) (CalculateSNAnomalies S (m_EccentricityPrev b)) b))) 1 \<ge> 0"
  by (auto simp add: ResolveSupernova_intact_def Let_def star_upd_fields now_unbound_flag
        still_bound_flag UpdateSystemicVelocity_fields)

lemma test_supernova_sel:
  "ts_mass test_supernova = 1" "ts_massPrev test_supernova = 1" "ts_snEvent test_supernova = True"
  "ts_kick test_supernova
     = sqrt (1327 * 10 ^ 8 * 2 / (15 * 10 ^ 7 * (15 * 10 ^ 7) * (15 * 10 ^ 7))) * (15 * 10 ^ 7)"
  "ts_theta test_supernova = 0" "ts_phi test_supernova = - pi"
  "ts_eccentricAnomaly test_supernova = 0" "ts_trueAnomaly test_supernova = 0"
  by (simp_all add: test_supernova_def test_star0_def)

lemma test_angleBetween:
  "angleBetween test_externals a b = arccos (dot a b / (Magnitude a * Magnitude b))"
  by (simp add: test_externals_def)

lemma test_SN_orbit:
  assumes "m_SemiMajorAxisPrev b = 1" "m_EccentricityPrev b = 0"
    "star_of b (m_Supernova b) = test_supernova" "star_of b (m_Companion b) = test_star0"
  shows "sn_V_post (SN_orbit test_constants (test_ops 1) test_externals 0 1 1 b) = Vector3d 0 0 0"
    and "sn_H_post (SN_orbit test_constants (test_ops 1) test_externals 0 1 1 b) = Vector3d 0 0 0"
    and "sn_h_post (SN_orbit test_constants (test_ops 1) test_externals 0 1 1 b) = 0"
    and "sn_E_post (SN_orbit test_constants (test_ops 1) test_externals 0 1 1 b) = Vector3d (- 1) 0 0"
    and "sn_e_post (SN_orbit test_constants (test_ops 1) test_externals 0 1 1 b) = 1"
    and "sn_R (SN_orbit test_constants (test_ops 1) test_externals 0 1 1 b) = Vector3d (15 * 10 ^ 7) 0 0"
    and "sn_V (SN_orbit test_constants (test_ops 1) test_externals 0 1 1 b)
           = Vector3d 0 (ts_kick test_supernova) 0"
    and "sn_natalKickVector (SN_orbit test_constants (test_ops 1) test_externals 0 1 1 b)
           = Vector3d 0 (- ts_kick test_supernova) 0"
    and "sn_mb_post (SN_orbit test_constants (test_ops 1) test_externals 0 1 1 b) = 2"
  using assms
  by (simp_all add: SN_orbit_def Let_def test_constants_sel test_ops_sel test_supernova_sel
        test_giant_sel test_angleBetween dot_def cross_def Magnitude_def vadd_def vsub_def
        smult_def vdiv_def)

lemma star_upd_orbit_fields:
  "m_Eccentricity (star_upd r f b) = m_Eccentricity b"
  "m_SemiMajorAxisPrev (star_upd r f b) = m_SemiMajorAxisPrev b"
  "m_EccentricityPrev (star_upd r f b) = m_EccentricityPrev b"
  by (simp_all add: star_upd_def split: star_ref.splits)

lemma ResolveSupernova_returns_true:
  assumes "IsSNevent S (star_of b (m_Supernova b))"
  shows "fst (ResolveSupernova K S X b)"
  using assms by (simp add: ResolveSupernova_def Let_def)

lemma ResolveSupernova_intact_eccentricity:
  "m_Eccentricity (ResolveSupernova_intact K S X theta b) =
     sn_e_post (SN_orbit K S X theta
            (MassPrev S (star_of b (m_Supernova b))) (MassPrev S (star_of b (m_Companion b)))
            (star_upd (m_Supernova b) (CalculateSNAnomalies S (m_EccentricityPrev b)) b))"
  by (simp add: ResolveSupernova_intact_def Let_def)

lemma ResolveSupernova_intact_branch:
  assumes "IsSNevent S (star_of b (m_Supernova b))"
  shows "let b2 = b\<lparr>m_EccentricityPreSN := m_EccentricityPrev b,
                     m_SemiMajorAxisPreSN := m_SemiMajorAxisPrev b\<rparr>;
             M = MassPrev S (star_of b2 (m_Supernova b2)) + MassPrev S (star_of b2 (m_Companion b2));
             mu = MassPrev S (star_of b2 (m_Supernova b2))
                    * MassPrev S (star_of b2 (m_Companion b2)) / M;
             b3 = star_upd (m_Supernova b2) (SetOrbitalEnergyPreSN S
                    (CalculateOrbitalEnergy X mu M (m_SemiMajorAxisPreSN b2))) b2;
             b4 = ResolveSupernova_intact K S X (SN_Theta S (star_of b3 (m_Supernova b3))) b3
         in \<not> IsUnbound X b3 \<longrightarrow>
              m_Unbound (snd (ResolveSupernova K S X b)) = m_Unbound b4
              \<and> m_Eccentricity (snd (ResolveSupernova K S X b)) = m_Eccentricity b4"
  using assms
  by (simp add: ResolveSupernova_def Let_def star_upd_fields star_upd_orbit_fields emit_def)


lemma star_of_star_upd:
  "star_of (star_upd r f b) r' = (if r' = r then f (star_of b r) else star_of b r')"
  by (cases r; cases r') (simp_all add: star_of_def star_upd_def)

lemma test_binary_prev:
  "m_SemiMajorAxisPrev (test_binary s1 s2 a e) = a" "m_EccentricityPrev (test_binary s1 s2 a e) = e"
  "m_Unbound (test_binary s1 s2 a e) = False"
  by (simp_all add: test_binary_def)

lemma test_IsUnbound: "IsUnbound test_externals b = m_Unbound b"
  by (simp add: test_externals_def)

text \<open>
  The branch for a binary that stays bound leaves \<open>m_Unbound\<close> as it is, and its \<open>m_ThetaE\<close>
  is the angle that \<^verbatim>\<open>angleBetween\<close> gives for the two unit vectors of the angular momentum.
  For the angle of the instance, the arccos of the normalised dot product, it lies
  between \<open>0\<close> and \<open>\<pi>\<close>.
\<close>

lemma still_bound_ThetaE:
  "m_ThetaE (ResolveSupernova_still_bound K S X L b) =
     angleBetween X (vdiv (sn_H L) (sn_h L)) (vdiv (sn_H_post L) (sn_h_post L))"
  by (simp add: ResolveSupernova_still_bound_def Let_def split_def star_upd_fields Random_fields)

lemma ResolveSupernova_intact_still_bound:
  assumes "\<not> Compare K (sn_e_post (SN_orbit K S X theta
            (MassPrev S (star_of b (m_Supernova b))) (MassPrev S (star_of b (m_Companion b)))
            (star_upd (m_Supernova b) (CalculateSNAnomalies S (m_EccentricityPrev b)) b))) 1 \<ge> 0"
  shows "m_Unbound (ResolveSupernova_intact K S X theta b) = m_Unbound b"
    and "m_ThetaE (ResolveSupernova_intact K S X theta b) =
       angleBetween X
         (vdiv (sn_H (SN_orbit K S X theta
            (MassPrev S (star_of b (m_Supernova b))) (MassPrev S (star_of b (m_Companion b)))
            (star_upd (m_Supernova b) (CalculateSNAnomalies S (m_EccentricityPrev b)) b)))
          (sn_h (SN_orbit K S X theta
            (MassPrev S (star_of b (m_Supernova b))) (MassPrev S (star_of b (m_Companion b)))
            (star_upd (m_Supernova b) (CalculateSNAnomalies S (m_EccentricityPrev b)) b))))
         (vdiv (sn_H_post (SN_orbit K S X theta
            (MassPrev S (star_of b (m_Supernova b))) (MassPrev S (star_of b (m_Companion b)))
            (star_upd (m_Supernova b) (CalculateSNAnomalies S (m_EccentricityPrev b)) b)))
          (sn_h_post (SN_orbit K S X theta
            (MassPrev S (star_of b (m_Supernova b))) (MassPrev S (star_of b (m_Companion b)))
            (star_upd (m_Supernova b) (CalculateSNAnomalies S (m_EccentricityPrev b)) b))))"
  using assms
  by (simp_all add: ResolveSupernova_intact_def Let_def star_upd_fields still_bound_flag
        still_bound_ThetaE UpdateSystemicVelocity_fields)

lemma dot_le_Magnitudes: "\<bar>dot a b\<bar> \<le> Magnitude a * Magnitude b"
proof -
  obtain x1 y1 z1 where a: "a = Vector3d x1 y1 z1" by (cases a)
  obtain x2 y2 z2 where b: "b = Vector3d x2 y2 z2" by (cases b)
  let ?A = "x1 * x1 + y1 * y1 + z1 * z1"
  let ?B = "x2 * x2 + y2 * y2 + z2 * z2"
  let ?d = "x1 * x2 + y1 * y2 + z1 * z2"
  have "?A * ?B - ?d * ?d
          = (x1 * y2 - y1 * x2) * (x1 * y2 - y1 * x2) + (y1 * z2 - z1 * y2) * (y1 * z2 - z1 * y2)
            + (z1 * x2 - x1 * z2) * (z1 * x2 - x1 * z2)"
    by (simp add: algebra_simps)
  then have "0 \<le> ?A * ?B - ?d * ?d" by simp
  then have "?d * ?d \<le> ?A * ?B" by simp
  then have "sqrt (?d * ?d) \<le> sqrt (?A * ?B)" by (rule real_sqrt_le_mono)
  then have "\<bar>?d\<bar> \<le> sqrt ?A * sqrt ?B" by (simp add: real_sqrt_mult)
  then show ?thesis by (simp add: a b dot_def Magnitude_def)
qed

lemma normalised_dot_range:
  "- 1 \<le> dot a b / (Magnitude a * Magnitude b)" "dot a b / (Magnitude a * Magnitude b) \<le> 1"
proof -
  let ?P = "Magnitude a * Magnitude b"
  have n: "0 \<le> ?P" by (simp add: Magnitude_def)
  have d: "\<bar>dot a b\<bar> \<le> ?P" by (rule dot_le_Magnitudes)
  have "- 1 \<le> dot a b / ?P \<and> dot a b / ?P \<le> 1"
  proof (cases "?P = 0")
    case True
    have z: "dot a b / ?P = 0" unfolding True by (rule div_by_0)
    show ?thesis unfolding z by simp
  next
    case False
    with n have p: "0 < ?P" by linarith
    from d have "- ?P \<le> dot a b" "dot a b \<le> ?P" by linarith+
    then have "- 1 * ?P \<le> dot a b" "dot a b \<le> 1 * ?P" by simp_all
    then show ?thesis
      using p by (simp only: pos_le_divide_eq pos_divide_le_eq)
  qed
  then show "- 1 \<le> dot a b / ?P" "dot a b / ?P \<le> 1" by blast+
qed

lemma test_angleBetween_range:
  "0 \<le> angleBetween test_externals a b" "angleBetween test_externals a b \<le> pi"
  unfolding test_angleBetween
  by (rule arccos_lbound[OF normalised_dot_range], rule arccos_ubound[OF normalised_dot_range])

text \<open>
  C1. A supernova in a binary that is bound before it, on a circular orbit, with a kick
  that cancels the orbital velocity: the kick has the magnitude of the orbital speed and
  points against the relative velocity \<open>V\<close>. The relative velocity after the kick is \<open>0\<close>,
  so the angular momentum after the kick is \<open>h' = 0\<close> and the eccentricity is \<open>e' = 1\<close>.
  The comparison of \<open>e'\<close> with \<open>1\<close> is not ``less'': \<^verbatim>\<open>ResolveSupernova\<close> returns true, takes
  the branch of the unbound binary, sets \<open>m_Unbound\<close> and the eccentricity \<open>1\<close>, and computes
  the asymptotic velocities with the divisors \<open>h' = 0\<close> and \<open>|H'| = 0\<close>: in doubles,
  \<^verbatim>\<open>vinf = (G*mb_/h_)*sqrt(e_*e_-1)\<close> is \<open>\<infinity> * 0\<close>, which is NaN, so the velocities are not
  finite.
\<close>

theorem supernova_kick_cancels_orbital_velocity:
  "let B = test_binary test_supernova test_star0 1 0;
       L = SN_orbit test_constants (test_ops 1) test_externals 0 1 1 B;
       r = ResolveSupernova test_constants (test_ops 1) test_externals B
   in IsSNevent (test_ops 1) (star_of B (m_Supernova B))
      \<and> \<not> IsUnbound test_externals B \<and> \<not> m_Unbound B
      \<and> sn_V L = Vector3d 0 (SN_KickMagnitude (test_ops 1) test_supernova) 0
      \<and> sn_natalKickVector L = Vector3d 0 (- SN_KickMagnitude (test_ops 1) test_supernova) 0
      \<and> sn_V_post L = Vector3d 0 0 0
      \<and> sn_h_post L = 0 \<and> Magnitude (sn_H_post L) = 0
      \<and> sn_e_post L = 1 \<and> Compare test_constants (sn_e_post L) 1 \<ge> 0
      \<and> fst r \<and> m_Eccentricity (snd r) = 1 \<and> m_Unbound (snd r)
      \<and> \<not> asymptotic_velocity_divisors_nonzero L"
proof -
  define B where "B = test_binary test_supernova test_star0 1 0"
  define b2 where "b2 = B\<lparr>m_EccentricityPreSN := m_EccentricityPrev B,
                            m_SemiMajorAxisPreSN := m_SemiMajorAxisPrev B\<rparr>"
  define E where "E = CalculateOrbitalEnergy test_externals
     (MassPrev (test_ops 1) (star_of b2 (m_Supernova b2))
        * MassPrev (test_ops 1) (star_of b2 (m_Companion b2))
        / (MassPrev (test_ops 1) (star_of b2 (m_Supernova b2))
            + MassPrev (test_ops 1) (star_of b2 (m_Companion b2))))
     (MassPrev (test_ops 1) (star_of b2 (m_Supernova b2))
        + MassPrev (test_ops 1) (star_of b2 (m_Companion b2)))
     (m_SemiMajorAxisPreSN b2)"
  define b3 where "b3 = star_upd (m_Supernova b2) (SetOrbitalEnergyPreSN (test_ops 1) E) b2"
  define b1 where "b1 = star_upd (m_Supernova b3)
     (CalculateSNAnomalies (test_ops 1) (m_EccentricityPrev b3)) b3"
  have B: "m_SemiMajorAxisPrev B = 1" "m_EccentricityPrev B = 0" "\<not> m_Unbound B"
    "m_Supernova B = STAR1" "m_Companion B = STAR2"
    "star_of B STAR1 = test_supernova" "star_of B STAR2 = test_star0"
    by (simp_all add: B_def test_binary_prev test_binary_sel star_of_def)
  have b2: "m_SemiMajorAxisPrev b2 = 1" "m_EccentricityPrev b2 = 0" "\<not> m_Unbound b2"
    "m_Supernova b2 = STAR1" "m_Companion b2 = STAR2"
    "star_of b2 STAR1 = test_supernova" "star_of b2 STAR2 = test_star0"
    using B by (simp_all add: b2_def star_of_def)
  have b3: "m_SemiMajorAxisPrev b3 = 1" "m_EccentricityPrev b3 = 0" "\<not> m_Unbound b3"
    "m_Supernova b3 = STAR1" "m_Companion b3 = STAR2"
    "star_of b3 STAR1 = test_supernova" "star_of b3 STAR2 = test_star0"
    using b2 by (simp_all add: b3_def star_upd_fields star_upd_orbit_fields star_of_star_upd
        test_ops_sel)
  have b1: "m_SemiMajorAxisPrev b1 = 1" "m_EccentricityPrev b1 = 0"
    "star_of b1 (m_Supernova b1) = test_supernova" "star_of b1 (m_Companion b1) = test_star0"
    using b3 by (simp_all add: b1_def star_upd_fields star_upd_orbit_fields star_of_star_upd
        test_ops_sel)
  have sn: "IsSNevent (test_ops 1) (star_of B (m_Supernova B))"
    using B by (simp add: test_ops_sel test_supernova_sel)
  have nu: "\<not> IsUnbound test_externals b3" using b3 by (simp add: test_IsUnbound)
  have th: "SN_Theta (test_ops 1) (star_of b3 (m_Supernova b3)) = 0"
    "MassPrev (test_ops 1) (star_of b3 (m_Supernova b3)) = 1"
    "MassPrev (test_ops 1) (star_of b3 (m_Companion b3)) = 1"
    using b3 by (simp_all add: test_ops_sel test_supernova_sel test_star0_def)
  have e1: "sn_e_post (SN_orbit test_constants (test_ops 1) test_externals 0 1 1 b1) = 1"
    by (rule test_SN_orbit(5)[OF b1])
  have res: "m_Unbound (snd (ResolveSupernova test_constants (test_ops 1) test_externals B))
           = m_Unbound (ResolveSupernova_intact test_constants (test_ops 1) test_externals 0 b3)"
    "m_Eccentricity (snd (ResolveSupernova test_constants (test_ops 1) test_externals B))
           = m_Eccentricity (ResolveSupernova_intact test_constants (test_ops 1) test_externals 0 b3)"
    using ResolveSupernova_intact_branch[OF sn, of test_externals test_constants] nu
    unfolding Let_def b2_def[symmetric] E_def[symmetric] b3_def[symmetric] th by simp_all
  have u: "m_Unbound (ResolveSupernova_intact test_constants (test_ops 1) test_externals 0 b3)"
    unfolding ResolveSupernova_intact_unbound_flag th b1_def[symmetric] e1
    by (simp add: Compare_test_constants)
  have e: "m_Eccentricity (ResolveSupernova_intact test_constants (test_ops 1) test_externals 0 b3) = 1"
    unfolding ResolveSupernova_intact_eccentricity th b1_def[symmetric] e1 ..
  have BB: "m_SemiMajorAxisPrev B = 1" "m_EccentricityPrev B = 0"
    "star_of B (m_Supernova B) = test_supernova" "star_of B (m_Companion B) = test_star0"
    using B by simp_all
  note L = test_SN_orbit[OF BB]
  have d: "\<not> asymptotic_velocity_divisors_nonzero
              (SN_orbit test_constants (test_ops 1) test_externals 0 1 1 B)"
    by (simp add: asymptotic_velocity_divisors_nonzero_def L(3))
  have k: "SN_KickMagnitude (test_ops 1) test_supernova = ts_kick test_supernova"
    by (simp add: test_ops_sel)
  show ?thesis
    unfolding Let_def B_def[symmetric] k
    using sn B(3) ResolveSupernova_returns_true[OF sn, of test_constants test_externals]
      res u e d L
    by (simp add: test_IsUnbound Compare_test_constants Magnitude_def)
qed

text \<open>
  C8. If the star \<open>m_Supernova\<close> is not flagged as undergoing a supernova,
  \<^verbatim>\<open>ResolveSupernova\<close> returns \<open>False\<close>, and the binary after the call is the binary before
  it, both stars included, with the warning \<open>RESOLVE_SUPERNOVA_IMPROPERLY_CALLED\<close> added
  to what has been logged.
\<close>

theorem ResolveSupernova_improperly_called:
  assumes "\<not> IsSNevent S (star_of b (m_Supernova b))"
  shows "ResolveSupernova K S X b =
           (False, b\<lparr>trace := trace b @ [SHOW_WARN RESOLVE_SUPERNOVA_IMPROPERLY_CALLED]\<rparr>)"
  using assms by (simp add: ResolveSupernova_def emit_def)

theorem ResolveSupernova_improperly_called_witness:
  "\<not> IsSNevent (test_ops 1) (star_of (test_binary test_star0 test_star0 1 0)
                                 (m_Supernova (test_binary test_star0 test_star0 1 0)))
   \<and> ResolveSupernova test_constants (test_ops 1) test_externals (test_binary test_star0 test_star0 1 0)
       = (False, (test_binary test_star0 test_star0 1 0)
                   \<lparr>trace := [SHOW_WARN RESOLVE_SUPERNOVA_IMPROPERLY_CALLED]\<rparr>)"
proof -
  have h: "\<not> IsSNevent (test_ops 1) (star_of (test_binary test_star0 test_star0 1 0)
                                 (m_Supernova (test_binary test_star0 test_star0 1 0)))"
    by (simp add: star_of_def test_binary_sel test_ops_sel test_star0_def)
  from ResolveSupernova_improperly_called[OF h, of test_constants test_externals] h
  show ?thesis by (simp add: test_binary_sel)
qed

end
